theory Spec2Isabelle
  imports Main "HOL-Library.Word" "HOL-Library.AList" "HOL-Library.Monad_Syntax"
begin

unbundle bit_operations_syntax

section \<open>TPM base types\<close>

text \<open>
  The Go package declares its scalar types over fixed-width unsigned integers and its
  buffers over byte slices.  A \<open>Handle\<close> is a \<open>uint32\<close>, an algorithm identifier a
  \<open>uint16\<close>, a session type a \<open>uint8\<close>; \<open>Name\<close>, \<open>Digest\<close>, \<open>Nonce\<close> and
  \<open>ContextData\<close> are byte slices.
\<close>

type_synonym byte = "8 word"
type_synonym bytes = "byte list"
type_synonym Handle = "32 word"
type_synonym HandleType = "8 word"
type_synonym HashAlgorithmId = "16 word"
type_synonym SymAlgorithmId = "16 word"
type_synonym SymModeId = "16 word"
type_synonym SessionType = "8 word"
type_synonym policyHMACType = "8 word"
type_synonym StartupType = "16 word"
type_synonym Name = bytes
type_synonym Digest = bytes
type_synonym Nonce = bytes
type_synonym ContextData = bytes

text \<open>
  Modelled from the spec: \<open>Handle.Type()\<close> is declared outside the files verified here.
  The spec says of a handle that its type ``is derived from the high byte''.
\<close>

definition Handle_Type :: "Handle \<Rightarrow> HandleType" where
  "Handle_Type h = ucast (drop_bit 24 h)"

definition HandleTypeHMACSession :: HandleType where "HandleTypeHMACSession = 0x02"
definition HandleTypePolicySession :: HandleType where "HandleTypePolicySession = 0x03"
definition HandleTypeTransient :: HandleType where "HandleTypeTransient = 0x80"

definition HandleOwner :: Handle where "HandleOwner = 0x40000001"
definition HandleNull :: Handle where "HandleNull = 0x40000007"

definition HashAlgorithmSHA256 :: HashAlgorithmId where "HashAlgorithmSHA256 = 0x000B"

definition SessionTypeHMAC :: SessionType where "SessionTypeHMAC = 0x00"
definition SessionTypePolicy :: SessionType where "SessionTypePolicy = 0x01"
definition SessionTypeTrial :: SessionType where "SessionTypeTrial = 0x03"

definition policyHMACTypeMax :: policyHMACType where "policyHMACTypeMax = 2"

definition SymAlgorithmAES :: SymAlgorithmId where "SymAlgorithmAES = 0x0006"
definition SymAlgorithmXOR :: SymAlgorithmId where "SymAlgorithmXOR = 0x000A"
definition SymAlgorithmNull :: SymAlgorithmId where "SymAlgorithmNull = 0x0010"
definition SymAlgorithmSM4 :: SymAlgorithmId where "SymAlgorithmSM4 = 0x0013"
definition SymAlgorithmCamellia :: SymAlgorithmId where "SymAlgorithmCamellia = 0x0026"
definition SymModeCFB :: SymModeId where "SymModeCFB = 0x0043"

text \<open>
  \<open>SymDef\<close> is declared outside the files verified here; \<open>ContextLoad\<close> reads its
  \<open>Algorithm\<close> field and the mode through \<open>Mode.Sym()\<close>.
\<close>

record SymDef =
  Algorithm :: SymAlgorithmId
  KeyBits :: "16 word"
  Mode :: SymModeId

definition Sym :: "SymModeId \<Rightarrow> SymModeId" where
  "Sym m = m"

section \<open>Context management: data model\<close>

text \<open>
  The public area of an object (\<open>Public\<close>) is opaque to the context code: it is only
  marshalled and named.  It is the type parameter \<open>'pub\<close> throughout.
\<close>

record 'pub objectContextData =
  Public :: 'pub
  Name :: Name

record sessionContextData =
  IsAudit :: bool
  IsExclusive :: bool
  HashAlg :: HashAlgorithmId
  SessionType :: SessionType
  PolicyHMACType :: policyHMACType
  IsBound :: bool
  BoundEntity :: Name
  SessionKey :: Digest
  NonceCaller :: Nonce
  NonceTPM :: Nonce
  Symmetric :: SymDef

text \<open>
  \<open>resourceContextDataU.Data\<close> is an \<open>interface{}\<close>: it holds an object payload, a
  session payload, or nothing (the zero value).
\<close>

datatype 'pub resourceContextDataU =
    ObjectData "'pub objectContextData"
  | SessionData sessionContextData
  | NilData

definition contextTypeObject :: "8 word" where "contextTypeObject = 0"
definition contextTypeSession :: "8 word" where "contextTypeSession = 1"

record 'pub resourceContextData =
  ContextType :: "8 word"
  Data :: "'pub resourceContextDataU"
  TPMBlob :: ContextData

record Context =
  Sequence :: "64 word"
  SavedHandle :: Handle
  Hierarchy :: Handle
  Blob :: ContextData

text \<open>
  Host-side handle contexts.  The code distinguishes \<open>*objectContext\<close> and
  \<open>*sessionContext\<close> by type switch; every other implementation of the
  \<open>HandleContext\<close> interface (permanent, PCR and NV index contexts) only matters
  through its handle.
\<close>

record 'pub objectContext =
  obj_handle :: Handle
  "public" :: 'pub
  name :: Name

record sessionContext =
  handle :: Handle
  usable :: bool
  isAudit :: bool
  isExclusive :: bool
  hashAlg :: HashAlgorithmId
  sessionType :: SessionType
  policyHMACType :: policyHMACType
  isBound :: bool
  boundEntity :: Name
  sessionKey :: Digest
  nonceCaller :: Nonce
  nonceTPM :: Nonce
  symmetric :: SymDef

datatype 'pub HandleContext =
    ObjectContext "'pub objectContext"
  | SessionContext sessionContext
  | OtherContext Handle

fun Handle_of :: "'pub HandleContext \<Rightarrow> Handle" where
  "Handle_of (ObjectContext c) = obj_handle c"
| "Handle_of (SessionContext c) = handle c"
| "Handle_of (OtherContext h) = h"

section \<open>Errors, commands and the TPM context\<close>

datatype CommandCode =
    CommandStartup
  | CommandContextSave
  | CommandContextLoad
  | CommandCreate

text \<open>
  Every error value the code under study can return.  \<open>Error\<close> stands for
  \<open>errors.New\<close> and \<open>fmt.Errorf\<close> (the message as written in the source, a formatted
  operand left as its verb), \<open>InvalidParam\<close> for \<open>makeInvalidParamError\<close>,
  \<open>TPMFailure\<close> for whatever the command dispatcher reports, \<open>Panic\<close> for a Go panic.
\<close>

datatype error =
    InvalidParam string string
  | InvalidParamError string
  | Error string
  | InvalidResponseError CommandCode string Handle
  | TPMFailure nat
  | Panic string

type_synonym ref = nat

datatype param =
    PHandle Handle
  | PHandleContext ref
  | PContext Context
  | PStartupType StartupType

text \<open>
  \<open>TPMContext\<close>.  Handle contexts are Go pointers shared between the registry, the
  caller and \<open>exclusiveSession\<close>, and \<open>ContextLoad\<close> compares two of them for
  identity, so they live in an explicit store: \<open>heap\<close> maps a reference to the object
  it points to, \<open>nextRef\<close> is the next reference \<open>new\<close> hands out.  \<open>resources\<close> is
  the Go map from handles to handle contexts, kept as an association list whose order
  is the order a \<open>range\<close> loop happens to visit.  \<open>issued\<close> records every command
  handed to the dispatcher.
\<close>

record 'pub TPMContext =
  heap :: "ref \<Rightarrow> 'pub HandleContext"
  nextRef :: ref
  resources :: "(Handle \<times> ref) list"
  exclusiveSession :: "ref option"
  issued :: "(CommandCode \<times> param list) list"

text \<open>
  The collaborators of the context code, none of which is under verification: the
  marshaller (\<open>MarshalToBytes\<close> and \<open>UnmarshalFromBytes\<close> at the two shapes the code
  uses them with; \<open>None\<close> is a returned error), \<open>crypto.SHA256\<close>, the methods
  \<open>Supported\<close>, \<open>Size\<close> and \<open>NewHash\<close> of a hash algorithm identifier, the name of
  a public area (\<open>Public.Name()\<close>, which can fail), the registry's key normalisation,
  and what the TPM answers to each of the three commands, which may depend on
  everything the host knows, the commands issued so far included.
\<close>

record 'pub env =
  MarshalData :: "'pub resourceContextData \<Rightarrow> bytes option"
  UnmarshalData :: "bytes \<Rightarrow> 'pub resourceContextData option"
  MarshalEnvelope :: "HashAlgorithmId \<Rightarrow> bytes \<Rightarrow> bytes \<Rightarrow> bytes option"
  UnmarshalEnvelope :: "bytes \<Rightarrow> (HashAlgorithmId \<times> bytes \<times> bytes) option"
  SHA256_Sum :: "bytes \<Rightarrow> bytes"
  Supported :: "HashAlgorithmId \<Rightarrow> bool"
  Size :: "HashAlgorithmId \<Rightarrow> nat"
  HashSum :: "HashAlgorithmId \<Rightarrow> bytes \<Rightarrow> bytes"
  publicName :: "'pub \<Rightarrow> Name option"
  normalizeHandleForMap :: "Handle \<Rightarrow> Handle"
  tpmContextSave :: "'pub TPMContext \<Rightarrow> ref \<Rightarrow> error + Context"
  tpmContextLoad :: "'pub TPMContext \<Rightarrow> Context \<Rightarrow> error + Handle"
  tpmStartup :: "'pub TPMContext \<Rightarrow> StartupType \<Rightarrow> error option"

section \<open>wrapContextBlob\<close>

text \<open>
  The payload \<open>wrapContextBlob\<close> builds before marshalling.  A handle context that is
  neither an object nor a session leaves the zero values: context type 0 and no data.
\<close>

fun contextData :: "ContextData \<Rightarrow> 'pub HandleContext \<Rightarrow> 'pub resourceContextData" where
  "contextData tpmBlob (ObjectContext c) =
     \<lparr>ContextType = contextTypeObject,
      Data = ObjectData \<lparr>Public = public c, Name = name c\<rparr>,
      TPMBlob = tpmBlob\<rparr>"
| "contextData tpmBlob (SessionContext c) =
     \<lparr>ContextType = contextTypeSession,
      Data = SessionData
        \<lparr>IsAudit = isAudit c,
         IsExclusive = isExclusive c,
         HashAlg = hashAlg c,
         SessionType = sessionType c,
         PolicyHMACType = policyHMACType c,
         IsBound = isBound c,
         BoundEntity = boundEntity c,
         SessionKey = sessionKey c,
         NonceCaller = nonceCaller c,
         NonceTPM = nonceTPM c,
         Symmetric = symmetric c\<rparr>,
      TPMBlob = tpmBlob\<rparr>"
| "contextData tpmBlob (OtherContext h) =
     \<lparr>ContextType = 0, Data = NilData, TPMBlob = tpmBlob\<rparr>"

definition wrapContextBlob ::
  "'pub env \<Rightarrow> ContextData \<Rightarrow> 'pub HandleContext \<Rightarrow> error + ContextData" where
  "wrapContextBlob env tpmBlob context =
     (let d = contextData tpmBlob context in
      case MarshalData env d of
        None \<Rightarrow> Inl (Panic ''cannot marshal wrapped resource context data: %v'')
      | Some data \<Rightarrow>
          (case MarshalEnvelope env HashAlgorithmSHA256 (SHA256_Sum env data) data of
             None \<Rightarrow> Inl (Panic ''cannot marshal wrapped resource context data and checksum: %v'')
           | Some out \<Rightarrow> Inr out))"

section \<open>The registry and the command dispatcher\<close>

text \<open>
  Modelled from the spec: \<open>RunCommand\<close> is declared outside the files verified here.
  The spec describes ``a generic run command operation taking a command code, an
  ordered list of handle/parameter arguments, an optional list of authorizing sessions,
  and out-parameters to populate'', and says the registry ``is mutated only at
  well-defined command-completion points''.  The three callers below pass no session.
  Running a command therefore records it and leaves the registry and the store alone;
  the out-parameters are the TPM's answer, taken from the environment by the caller.
\<close>

definition RunCommand ::
  "CommandCode \<Rightarrow> param list \<Rightarrow> 'pub TPMContext \<Rightarrow> 'pub TPMContext" where
  "RunCommand c args t = t\<lparr>issued := issued t @ [(c, args)]\<rparr>"

text \<open>
  Modelled from the spec: \<open>addHandleContext\<close> is declared outside the files verified
  here.  The spec: ``\<open>add(resourceContext)\<close> inserts, keyed by handle, overwriting any
  stale saved-session entry for the same handle''.
\<close>

definition addHandleContext :: "'pub env \<Rightarrow> ref \<Rightarrow> 'pub TPMContext \<Rightarrow> 'pub TPMContext" where
  "addHandleContext env rc t =
     t\<lparr>resources :=
         AList.update (normalizeHandleForMap env (Handle_of (heap t rc))) rc (resources t)\<rparr>"




section \<open>ContextSave\<close>

text \<open>
  \<open>saveContext\<close> is a reference to a handle context.  The session test, the command,
  the wrapping of the returned blob and the update of \<open>usable\<close> follow the source line
  by line.
\<close>

fun markSaved :: "'pub HandleContext \<Rightarrow> 'pub HandleContext" where
  "markSaved (SessionContext sc) = SessionContext (sc\<lparr>usable := False\<rparr>)"
| "markSaved hc = hc"

fun unusableSession :: "'pub HandleContext \<Rightarrow> bool" where
  "unusableSession (SessionContext sc) = (\<not> usable sc)"
| "unusableSession hc = False"

definition ContextSave ::
  "'pub env \<Rightarrow> ref \<Rightarrow> 'pub TPMContext \<Rightarrow> (error + Context) \<times> 'pub TPMContext" where
  "ContextSave env saveContext t =
     (if unusableSession (heap t saveContext)
      then (Inl (InvalidParam ''saveContext'' ''unusable session HandleContext''), t)
      else
        let t1 = RunCommand CommandContextSave [PHandleContext saveContext] t in
        case tpmContextSave env t saveContext of
          Inl err \<Rightarrow> (Inl err, t1)
        | Inr context \<Rightarrow>
            (case wrapContextBlob env (Blob context) (heap t1 saveContext) of
               Inl p \<Rightarrow> (Inl p, t1)
             | Inr blob \<Rightarrow>
                 (Inr (context\<lparr>Blob := blob\<rparr>),
                  t1\<lparr>heap := (heap t1)(saveContext := markSaved (heap t1 saveContext))\<rparr>)))"

section \<open>ContextLoad\<close>

text \<open>
  Modelled from the spec: \<open>Public.compareName\<close> is declared outside the files verified
  here.  The spec: ``the Name must equal the digest of the restored public area under
  its own name algorithm''; \<open>publicName\<close> is that digest, when it can be computed.
\<close>

definition compareName :: "'pub env \<Rightarrow> 'pub \<Rightarrow> Name \<Rightarrow> bool" where
  "compareName env p n = (case publicName env p of None \<Rightarrow> False | Some m \<Rightarrow> m = n)"

text \<open>The checks on a session payload, in the order of the source.\<close>

definition validateSession :: "'pub env \<Rightarrow> sessionContextData \<Rightarrow> error option" where
  "validateSession env dd =
     (if \<not> IsAudit dd \<and> IsExclusive dd then
        Some (Error ''cannot load context for session: inconsistent audit attributes'')
      else if \<not> Supported env (HashAlg dd) then
        Some (Error ''cannot load context for session: invalid hash algorithm %v'')
      else if \<not> (SessionType dd = SessionTypeHMAC \<or> SessionType dd = SessionTypePolicy
                  \<or> SessionType dd = SessionTypeTrial) then
        Some (Error ''cannot load context for session: invalid type %v'')
      else if PolicyHMACType dd > policyHMACTypeMax then
        Some (Error ''cannot load context for session: invalid value'')
      else if (IsBound dd \<and> length (BoundEntity dd) = 0)
              \<or> (\<not> IsBound dd \<and> length (BoundEntity dd) > 0) then
        Some (Error ''cannot load context for session: inconsistent properties'')
      else
        let digestSize = Size env (HashAlg dd) in
        if length (SessionKey dd) \<noteq> digestSize \<and> length (SessionKey dd) \<noteq> 0 then
          Some (Error ''cannot load context for session: unexpected session key size'')
        else if length (NonceCaller dd) \<noteq> digestSize \<or> length (NonceTPM dd) \<noteq> digestSize then
          Some (Error ''cannot load context for session: unexpected nonce size'')
        else if \<not> (Algorithm (Symmetric dd) = SymAlgorithmAES
                    \<or> Algorithm (Symmetric dd) = SymAlgorithmXOR
                    \<or> Algorithm (Symmetric dd) = SymAlgorithmNull
                    \<or> Algorithm (Symmetric dd) = SymAlgorithmSM4
                    \<or> Algorithm (Symmetric dd) = SymAlgorithmCamellia) then
          Some (Error ''cannot load context for session: invalid symmetric algorithm %v'')
        else if (Algorithm (Symmetric dd) = SymAlgorithmAES
                 \<or> Algorithm (Symmetric dd) = SymAlgorithmSM4
                 \<or> Algorithm (Symmetric dd) = SymAlgorithmCamellia)
                \<and> Sym (Mode (Symmetric dd)) \<noteq> SymModeCFB then
          Some (Error ''cannot load context for session: invalid symmetric mode %v'')
        else None)"

text \<open>
  The first \<open>switch d.ContextType\<close> of \<open>ContextLoad\<close>.  A type assertion on
  \<open>d.Data.Data\<close> that meets another dynamic type panics.
\<close>

definition crossValidate :: "'pub env \<Rightarrow> Handle \<Rightarrow> 'pub resourceContextData \<Rightarrow> error option" where
  "crossValidate env savedHandle d =
     (if ContextType d = contextTypeObject then
        (if Handle_Type savedHandle \<noteq> HandleTypeTransient then
           Some (Error ''cannot load context: inconsistent handle type'')
         else case Data d of
           ObjectData dd \<Rightarrow>
             (if \<not> compareName env (Public dd) (Name dd) then
                Some (Error ''cannot load context for object: public area and name don't match'')
              else None)
         | _ \<Rightarrow> Some (Panic ''interface conversion: not *objectContextData''))
      else if ContextType d = contextTypeSession then
        (if \<not> (Handle_Type savedHandle = HandleTypeHMACSession
                \<or> Handle_Type savedHandle = HandleTypePolicySession) then
           Some (Error ''cannot load context: inconsistent handle type'')
         else case Data d of
           SessionData dd \<Rightarrow> validateSession env dd
         | _ \<Rightarrow> Some (Panic ''interface conversion: not *sessionContextData''))
      else Some (Error ''cannot load context: inconsistent attributes''))"

text \<open>
  The part of \<open>ContextLoad\<close> that runs before the TPM is asked anything: unpack the
  envelope, check the checksum, unpack the payload, cross-validate it.
\<close>

definition unwrapContextBlob :: "'pub env \<Rightarrow> Context \<Rightarrow> error + 'pub resourceContextData" where
  "unwrapContextBlob env context =
     (case UnmarshalEnvelope env (Blob context) of
        None \<Rightarrow> Inl (Error ''cannot load context: cannot unpack checksum and data blob: %v'')
      | Some (integrityAlg, integrity, data) \<Rightarrow>
          if \<not> Supported env integrityAlg then
            Inl (Error ''cannot load context: invalid checksum algorithm'')
          else if HashSum env integrityAlg data \<noteq> integrity then
            Inl (Error ''cannot load context: invalid checksum'')
          else
            (case UnmarshalData env data of
               None \<Rightarrow> Inl (Error ''cannot load context: cannot unmarshal data blob: %v'')
             | Some d \<Rightarrow>
                 (case crossValidate env (SavedHandle context) d of
                    Some err \<Rightarrow> Inl err
                  | None \<Rightarrow> Inr d)))"

text \<open>
  \<open>&sessionContext{handle: loadedHandle}\<close>: every other field has its zero value (the
  nil \<open>symmetric\<close> pointer is overwritten before it is read).
\<close>

definition newSessionContext :: "Handle \<Rightarrow> sessionContext" where
  "newSessionContext h =
     \<lparr>handle = h, usable = False, isAudit = False, isExclusive = False, hashAlg = 0,
      sessionType = 0, policyHMACType = 0, isBound = False, boundEntity = [],
      sessionKey = [], nonceCaller = [], nonceTPM = [],
      symmetric = \<lparr>Algorithm = 0, KeyBits = 0, Mode = 0\<rparr>\<rparr>"

text \<open>
  The assignments \<open>sc.handle = loadedHandle\<close> to \<open>sc.symmetric = dd.Symmetric\<close>; \<open>tracked\<close>
  is the outcome of the pointer comparison \<open>sc == t.exclusiveSession\<close>.
\<close>

definition restoreSession ::
  "Handle \<Rightarrow> bool \<Rightarrow> sessionContextData \<Rightarrow> sessionContext \<Rightarrow> sessionContext" where
  "restoreSession loadedHandle tracked dd sc =
     sc\<lparr>handle := loadedHandle,
        usable := True,
        isAudit := IsAudit dd,
        isExclusive := (IsExclusive dd \<and> tracked),
        hashAlg := HashAlg dd,
        sessionType := SessionType dd,
        policyHMACType := PolicyHMACType dd,
        isBound := IsBound dd,
        boundEntity := BoundEntity dd,
        sessionKey := SessionKey dd,
        nonceCaller := NonceCaller dd,
        nonceTPM := NonceTPM dd,
        symmetric := Symmetric dd\<rparr>"

text \<open>
  The registry lookup of the session branch: the context registered under the loaded
  handle (a registered context of another type makes the type assertion panic), or a
  newly allocated one.
\<close>

definition sessionFor ::
  "'pub env \<Rightarrow> Handle \<Rightarrow> 'pub TPMContext \<Rightarrow> error + (ref \<times> sessionContext \<times> 'pub TPMContext)" where
  "sessionFor env loadedHandle t =
     (case map_of (resources t) (normalizeHandleForMap env loadedHandle) of
        Some rc \<Rightarrow>
          (case heap t rc of
             SessionContext sc \<Rightarrow> Inr (rc, sc, t)
           | _ \<Rightarrow> Inl (Panic ''interface conversion: not *sessionContext''))
      | None \<Rightarrow>
          Inr (nextRef t, newSessionContext loadedHandle, t\<lparr>nextRef := Suc (nextRef t)\<rparr>))"

text \<open>
  The second \<open>switch d.ContextType\<close> of \<open>ContextLoad\<close> and the registration of the
  result.  With a context type that is neither object nor session \<open>rc\<close> stays nil and
  \<open>addHandleContext\<close> dereferences it.
\<close>

definition finishLoad ::
  "'pub env \<Rightarrow> Context \<Rightarrow> 'pub resourceContextData \<Rightarrow> Handle \<Rightarrow> 'pub TPMContext
     \<Rightarrow> (error + ref) \<times> 'pub TPMContext" where
  "finishLoad env context d loadedHandle t =
     (if ContextType d = contextTypeObject then
        (if Handle_Type loadedHandle \<noteq> HandleTypeTransient then
           (Inl (InvalidResponseError CommandContextLoad
                   ''handle 0x%08x returned from TPM is the wrong type'' loadedHandle), t)
         else case Data d of
           ObjectData dd \<Rightarrow>
             (let rc = nextRef t;
                  t1 = t\<lparr>heap := (heap t)(rc := ObjectContext
                              \<lparr>obj_handle = loadedHandle, public = Public dd, name = Name dd\<rparr>),
                         nextRef := Suc rc\<rparr>
              in (Inr rc, addHandleContext env rc t1))
         | _ \<Rightarrow> (Inl (Panic ''interface conversion: not *objectContextData''), t))
      else if ContextType d = contextTypeSession then
        (if loadedHandle \<noteq> SavedHandle context then
           (Inl (InvalidResponseError CommandContextLoad
                   ''handle 0x%08x returned from TPM is incorrect'' loadedHandle), t)
         else case sessionFor env loadedHandle t of
           Inl p \<Rightarrow> (Inl p, t)
         | Inr (rc, sc, t1) \<Rightarrow>
             (case Data d of
                SessionData dd \<Rightarrow>
                  (let sc' = restoreSession loadedHandle (exclusiveSession t1 = Some rc) dd sc;
                       t2 = t1\<lparr>heap := (heap t1)(rc := SessionContext sc')\<rparr>
                   in (Inr rc, addHandleContext env rc t2))
              | _ \<Rightarrow> (Inl (Panic ''interface conversion: not *sessionContextData''), t1)))
      else (Inl (Panic ''nil HandleContext''), t))"

definition ContextLoad ::
  "'pub env \<Rightarrow> Context option \<Rightarrow> 'pub TPMContext \<Rightarrow> (error + ref) \<times> 'pub TPMContext" where
  "ContextLoad env context t =
     (case context of
        None \<Rightarrow> (Inl (InvalidParam ''context'' ''nil value''), t)
      | Some c \<Rightarrow>
          (case unwrapContextBlob env c of
             Inl err \<Rightarrow> (Inl err, t)
           | Inr d \<Rightarrow>
               (let tpmContext = \<lparr>Sequence = Sequence c, SavedHandle = SavedHandle c,
                                  Hierarchy = Hierarchy c, Blob = TPMBlob d\<rparr>;
                    t1 = RunCommand CommandContextLoad [PContext tpmContext] t
                in case tpmContextLoad env t tpmContext of
                     Inl err \<Rightarrow> (Inl err, t1)
                   | Inr loadedHandle \<Rightarrow> finishLoad env c d loadedHandle t1)))"

section \<open>Startup\<close>




section \<open>What the context code expects of its collaborators and of its inputs\<close>

text \<open>
  The marshaller's contract: unpacking what was packed gives back what was packed, at
  both shapes.
\<close>

definition marshallerInverts :: "'pub env \<Rightarrow> bool" where
  "marshallerInverts env =
     ((\<forall>d b. MarshalData env d = Some b \<longrightarrow> UnmarshalData env b = Some d)
      \<and> (\<forall>alg integrity data b. MarshalEnvelope env alg integrity data = Some b
            \<longrightarrow> UnmarshalEnvelope env b = Some (alg, integrity, data)))"

text \<open>
  \<open>wrapContextBlob\<close> hashes with \<open>crypto.SHA256\<close>, \<open>ContextLoad\<close> with the hash the
  identifier in the envelope names: the two agree when \<open>HashAlgorithmSHA256\<close> is
  supported and names SHA-256.
\<close>

definition sha256Registered :: "'pub env \<Rightarrow> bool" where
  "sha256Registered env =
     (Supported env HashAlgorithmSHA256
      \<and> (\<forall>b. HashSum env HashAlgorithmSHA256 b = SHA256_Sum env b))"

text \<open>
  The consistency rules of the spec (section 4.3, step 5), written from its words, for
  comparison with \<open>crossValidate\<close>.  Object: ``the handle type implied by the
  caller-supplied saved handle must be transient; the Name must equal the digest of the
  restored public area under its own name algorithm''.
\<close>

definition objectConsistent :: "'pub env \<Rightarrow> Handle \<Rightarrow> 'pub objectContextData \<Rightarrow> bool" where
  "objectConsistent env savedHandle od =
     (Handle_Type savedHandle = HandleTypeTransient
      \<and> publicName env (Public od) = Some (Name od))"

text \<open>
  Session: ``the saved handle type must be HMAC-session or policy-session; [...]
  \<open>isExclusive\<close> implies \<open>isAudit\<close>; hash algorithm must be supported; session type must
  be one of HMAC/policy/trial; the policy-HMAC sub-type must be within its defined
  range; \<open>isBound\<close> must be consistent with a non-empty bound-entity Name (both set or
  both empty); session key length must be 0 or exactly the hash's digest size; both
  nonces must be exactly the digest size; the symmetric algorithm must be one of the
  recognized set, and if it is a block cipher, its mode must be CFB''.
\<close>

definition sessionConsistent :: "'pub env \<Rightarrow> Handle \<Rightarrow> sessionContextData \<Rightarrow> bool" where
  "sessionConsistent env savedHandle sd =
     (Handle_Type savedHandle \<in> {HandleTypeHMACSession, HandleTypePolicySession}
      \<and> (IsExclusive sd \<longrightarrow> IsAudit sd)
      \<and> Supported env (HashAlg sd)
      \<and> SessionType sd \<in> {SessionTypeHMAC, SessionTypePolicy, SessionTypeTrial}
      \<and> PolicyHMACType sd \<le> policyHMACTypeMax
      \<and> (IsBound sd \<longleftrightarrow> BoundEntity sd \<noteq> [])
      \<and> (length (SessionKey sd) = 0 \<or> length (SessionKey sd) = Size env (HashAlg sd))
      \<and> length (NonceCaller sd) = Size env (HashAlg sd)
      \<and> length (NonceTPM sd) = Size env (HashAlg sd)
      \<and> Algorithm (Symmetric sd)
          \<in> {SymAlgorithmAES, SymAlgorithmXOR, SymAlgorithmNull, SymAlgorithmSM4,
              SymAlgorithmCamellia}
      \<and> (Algorithm (Symmetric sd) \<in> {SymAlgorithmAES, SymAlgorithmSM4, SymAlgorithmCamellia}
           \<longrightarrow> Mode (Symmetric sd) = SymModeCFB))"


section \<open>Create\<close>

text \<open>
  \<open>Create\<close> is a method of \<open>tpmImpl\<close>.  \<open>SensitiveCreate\<close>, \<open>Public\<close>,
  \<open>PCRSelectionList\<close>, the session argument, \<open>CreationData\<close> and \<open>TkCreation\<close> are
  declared elsewhere and only passed through: they are the type parameters \<open>'s\<close>, \<open>'p\<close>,
  \<open>'l\<close>, \<open>'a\<close>, \<open>'c\<close> and \<open>'k\<close>.  A nil interface or nil pointer argument is \<open>None\<close>.
\<close>

record ('s, 'p, 'l, 'a) CreateCommand =
  parent :: Handle
  inSensitive :: 's
  inPublic :: 'p
  outsideInfo :: bytes
  creationPCR :: 'l
  session :: 'a

record ('p, 'c, 'k) CreateResponse =
  outPrivate :: bytes
  outPublic :: 'p
  creationData :: 'c
  creationHash :: Digest
  creationTicket :: 'k

record ('s, 'p, 'l, 'a) tpmImpl =
  implResources :: "(Handle \<times> 'p HandleContext) list"
  implIssued :: "('s, 'p, 'l, 'a) CreateCommand list"

text \<open>
  What \<open>Create\<close> leaves to others: the zero value \<open>SensitiveCreate{}\<close>, the check
  \<open>checkResourceContextParam\<close> and the TPM's answer to the command.
\<close>

record ('s, 'p, 'l, 'a, 'c, 'k) createEnv =
  zeroSensitiveCreate :: 's
  checkResourceContextParam :: "('s, 'p, 'l, 'a) tpmImpl \<Rightarrow> 'p HandleContext \<Rightarrow> error option"
  tpmCreate :: "('s, 'p, 'l, 'a) tpmImpl \<Rightarrow> ('s, 'p, 'l, 'a) CreateCommand
                 \<Rightarrow> error + ('p, 'c, 'k) CreateResponse"

definition Create ::
  "('s, 'p, 'l, 'a, 'c, 'k) createEnv \<Rightarrow> 'p HandleContext option \<Rightarrow> 's option \<Rightarrow> 'p option
     \<Rightarrow> bytes \<Rightarrow> 'l \<Rightarrow> 'a \<Rightarrow> ('s, 'p, 'l, 'a) tpmImpl
     \<Rightarrow> (error + ('p, 'c, 'k) CreateResponse) \<times> ('s, 'p, 'l, 'a) tpmImpl" where
  "Create env parentHandle inSens inPub outsideInf pcrs sess t =
     (case parentHandle of
        None \<Rightarrow> (Inl (InvalidParamError ''nil parentHandle''), t)
      | Some ph \<Rightarrow>
          (let inSens' = (case inSens of None \<Rightarrow> zeroSensitiveCreate env | Some v \<Rightarrow> v) in
           case inPub of
             None \<Rightarrow> (Inl (InvalidParamError ''nil inPublic''), t)
           | Some pub \<Rightarrow>
               (case checkResourceContextParam env t ph of
                  Some err \<Rightarrow> (Inl err, t)
                | None \<Rightarrow>
                    (let cmd = \<lparr>parent = Handle_of ph, inSensitive = inSens', inPublic = pub,
                                outsideInfo = outsideInf, creationPCR = pcrs, session = sess\<rparr>;
                         t1 = t\<lparr>implIssued := implIssued t @ [cmd]\<rparr>
                     in case tpmCreate env t cmd of
                          Inl err \<Rightarrow> (Inl err, t1)
                        | Inr out \<Rightarrow> (Inr out, t1)))))"

section \<open>Policy assertions with an expiration\<close>

type_synonym Timeout = bytes

record TkAuth =
  Tag :: "16 word"
  TkHierarchy :: Handle
  TkDigest :: Digest

definition TagAuthSigned :: "16 word" where "TagAuthSigned = 0x8022"
definition TagAuthSecret :: "16 word" where "TagAuthSecret = 0x8023"

text \<open>
  Modelled from the spec: \<open>PolicySecret\<close> and \<open>PolicySigned\<close> and the TPM that answers
  them are outside the files verified here; only their tests are.  The spec: ``a
  non-negative expiration means [...] no persistent ticket issued, hierarchy reported as
  null; a negative expiration requests a reusable ticket valid until \<open>|expiration|\<close>
  time units from now, tied to the owner hierarchy''.  \<open>expiration\<close> is an \<open>int32\<close>.
  The timeout blob of a ticket is its expiry time, eight bytes big-endian; \<open>clock\<close> is
  the time of the assertion and \<open>tdigest\<close> stands for the ticket's digest.
\<close>

definition be64 :: "64 word \<Rightarrow> bytes" where
  "be64 w = map (\<lambda>i. ucast (drop_bit (8 * i) w)) (rev [0..<8])"

definition policyAssertion ::
  "16 word \<Rightarrow> 64 word \<Rightarrow> Digest \<Rightarrow> 32 word \<Rightarrow> Timeout \<times> TkAuth" where
  "policyAssertion tag clock tdigest expiration =
     (if 0 \<le> sint expiration
      then ([], \<lparr>Tag = tag, TkHierarchy = HandleNull, TkDigest = []\<rparr>)
      else (be64 (clock + of_int \<bar>sint expiration\<bar>),
            \<lparr>Tag = tag, TkHierarchy = HandleOwner, TkDigest = tdigest\<rparr>))"

definition PolicySecret ::
  "error option \<Rightarrow> 64 word \<Rightarrow> Digest \<Rightarrow> 32 word \<Rightarrow> error + (Timeout \<times> TkAuth)" where
  "PolicySecret failure clock tdigest expiration =
     (case failure of
        Some err \<Rightarrow> Inl err
      | None \<Rightarrow> Inr (policyAssertion TagAuthSecret clock tdigest expiration))"

definition PolicySigned ::
  "error option \<Rightarrow> 64 word \<Rightarrow> Digest \<Rightarrow> 32 word \<Rightarrow> error + (Timeout \<times> TkAuth)" where
  "PolicySigned failure clock tdigest expiration =
     (case failure of
        Some err \<Rightarrow> Inl err
      | None \<Rightarrow> Inr (policyAssertion TagAuthSigned clock tdigest expiration))"

text \<open>
  The assertions \<open>TestPolicySecret\<close> and \<open>TestPolicySigned\<close> make about the returned
  timeout and ticket, as the list of failures they report (\<open>t.Errorf\<close>); \<open>tag\<close> is the
  tag the test expects.
\<close>

definition ticketTestFailures :: "16 word \<Rightarrow> 32 word \<Rightarrow> Timeout \<Rightarrow> TkAuth \<Rightarrow> string list" where
  "ticketTestFailures tag expiration timeout policyTicket =
     (if Tag policyTicket \<noteq> tag then [''Unexpected tag: %v''] else [])
     @ (if 0 \<le> sint expiration then
          (if length timeout \<noteq> 0 then [''Expected an empty timeout''] else [])
          @ (if TkHierarchy policyTicket \<noteq> HandleNull then [''Unexpected hierarchy: 0x%08x''] else [])
        else
          (if length timeout = 0 then [''Expected a non zero-length timeout''] else [])
          @ (if TkHierarchy policyTicket \<noteq> HandleOwner then [''Unexpected hierarchy: 0x%08x''] else []))"

section \<open>A concrete set of collaborators\<close>

text \<open>
  To run the model on concrete inputs the collaborators must be concrete too.  What
  follows is one admissible choice: a marshaller in the style of the TPM wire format
  (big-endian integers, buffers prefixed by a 16-bit length, a union selected by the
  byte before it), with the public area taken as its own encoding, and a digest
  function of the right length that stands in for the hash functions.  The theorems
  below hold for every choice; this one instantiates them.
\<close>

definition put16 :: "16 word \<Rightarrow> bytes" where
  "put16 w = [ucast (drop_bit 8 w), ucast w]"

fun get16 :: "bytes \<Rightarrow> (16 word \<times> bytes) option" where
  "get16 (a # b # rest) = Some (push_bit 8 (ucast a) OR ucast b, rest)"
| "get16 _ = None"

definition putSized :: "bytes \<Rightarrow> bytes option" where
  "putSized b = (if length b < 65536 then Some (put16 (of_nat (length b)) @ b) else None)"

definition getSized :: "bytes \<Rightarrow> (bytes \<times> bytes) option" where
  "getSized bs =
     (case get16 bs of
        None \<Rightarrow> None
      | Some (n, rest) \<Rightarrow>
          if unat n \<le> length rest then Some (take (unat n) rest, drop (unat n) rest)
          else None)"

definition putBool :: "bool \<Rightarrow> bytes" where
  "putBool b = [if b then 1 else 0]"

fun getBool :: "bytes \<Rightarrow> (bool \<times> bytes) option" where
  "getBool (x # rest) = (if x = 0 then Some (False, rest) else if x = 1 then Some (True, rest) else None)"
| "getBool [] = None"

fun get8 :: "bytes \<Rightarrow> (byte \<times> bytes) option" where
  "get8 (x # rest) = Some (x, rest)"
| "get8 [] = None"

definition wireMarshalEnvelope :: "HashAlgorithmId \<Rightarrow> bytes \<Rightarrow> bytes \<Rightarrow> bytes option" where
  "wireMarshalEnvelope alg integrity data =
     do { c \<leftarrow> putSized integrity; d \<leftarrow> putSized data; Some (put16 alg @ c @ d) }"

definition wireUnmarshalEnvelope :: "bytes \<Rightarrow> (HashAlgorithmId \<times> bytes \<times> bytes) option" where
  "wireUnmarshalEnvelope bs =
     do { (alg, r1) \<leftarrow> get16 bs; (integrity, r2) \<leftarrow> getSized r1; (data, r3) \<leftarrow> getSized r2;
          Some (alg, integrity, data) }"

definition wireMarshalSession :: "sessionContextData \<Rightarrow> bytes option" where
  "wireMarshalSession dd =
     do { be \<leftarrow> putSized (BoundEntity dd);
          sk \<leftarrow> putSized (SessionKey dd);
          nc \<leftarrow> putSized (NonceCaller dd);
          nt \<leftarrow> putSized (NonceTPM dd);
          Some (putBool (IsAudit dd) @ putBool (IsExclusive dd) @ put16 (HashAlg dd)
                @ [SessionType dd, PolicyHMACType dd] @ putBool (IsBound dd)
                @ be @ sk @ nc @ nt
                @ put16 (Algorithm (Symmetric dd)) @ put16 (KeyBits (Symmetric dd))
                @ put16 (Mode (Symmetric dd))) }"

definition wireUnmarshalSession :: "bytes \<Rightarrow> (sessionContextData \<times> bytes) option" where
  "wireUnmarshalSession bs =
     do { (au, r1) \<leftarrow> getBool bs;
          (ex, r2) \<leftarrow> getBool r1;
          (ha, r3) \<leftarrow> get16 r2;
          (st, r4) \<leftarrow> get8 r3;
          (ph, r5) \<leftarrow> get8 r4;
          (bd, r6) \<leftarrow> getBool r5;
          (be, r7) \<leftarrow> getSized r6;
          (sk, r8) \<leftarrow> getSized r7;
          (nc, r9) \<leftarrow> getSized r8;
          (nt, r10) \<leftarrow> getSized r9;
          (sa, r11) \<leftarrow> get16 r10;
          (kb, r12) \<leftarrow> get16 r11;
          (mo, r13) \<leftarrow> get16 r12;
          Some (\<lparr>IsAudit = au, IsExclusive = ex, HashAlg = ha, SessionType = st,
                 PolicyHMACType = ph, IsBound = bd, BoundEntity = be, SessionKey = sk,
                 NonceCaller = nc, NonceTPM = nt,
                 Symmetric = \<lparr>Algorithm = sa, KeyBits = kb, Mode = mo\<rparr>\<rparr>, r13) }"

definition wireMarshalData :: "bytes resourceContextData \<Rightarrow> bytes option" where
  "wireMarshalData d =
     do { u \<leftarrow> (case Data d of
                  ObjectData od \<Rightarrow>
                    (if ContextType d = contextTypeObject
                     then do { p \<leftarrow> putSized (Public od); n \<leftarrow> putSized (Name od); Some (p @ n) }
                     else None)
                | SessionData sd \<Rightarrow>
                    (if ContextType d = contextTypeSession then wireMarshalSession sd else None)
                | NilData \<Rightarrow> None);
          b \<leftarrow> putSized (TPMBlob d);
          Some (ContextType d # u @ b) }"

definition wireUnmarshalData :: "bytes \<Rightarrow> bytes resourceContextData option" where
  "wireUnmarshalData bs =
     do { (ct, r1) \<leftarrow> get8 bs;
          (u, r2) \<leftarrow> (if ct = contextTypeObject then
                        do { (p, q1) \<leftarrow> getSized r1; (n, q2) \<leftarrow> getSized q1;
                             Some (ObjectData \<lparr>Public = p, Name = n\<rparr>, q2) }
                      else if ct = contextTypeSession then
                        do { (sd, q1) \<leftarrow> wireUnmarshalSession r1; Some (SessionData sd, q1) }
                      else None);
          (b, r3) \<leftarrow> getSized r2;
          Some \<lparr>ContextType = ct, Data = u, TPMBlob = b\<rparr> }"

definition standInDigest :: "nat \<Rightarrow> bytes \<Rightarrow> bytes" where
  "standInDigest n data = replicate n (fold (XOR) data 0)"

definition wireSize :: "HashAlgorithmId \<Rightarrow> nat" where
  "wireSize alg =
     (if alg = 0x0004 then 20 else if alg = 0x000B then 32 else if alg = 0x000C then 48
      else if alg = 0x000D then 64 else 0)"

definition wireNormalize :: "Handle \<Rightarrow> Handle" where
  "wireNormalize h =
     (if Handle_Type h \<noteq> HandleTypePolicySession then h
      else (h AND 0xFFFFFF) OR push_bit 24 (ucast HandleTypeHMACSession))"

definition wireEnv ::
  "(bytes TPMContext \<Rightarrow> ref \<Rightarrow> error + Context) \<Rightarrow> (bytes TPMContext \<Rightarrow> Context \<Rightarrow> error + Handle)
     \<Rightarrow> (bytes TPMContext \<Rightarrow> StartupType \<Rightarrow> error option) \<Rightarrow> bytes env" where
  "wireEnv save load start =
     \<lparr>MarshalData = wireMarshalData,
      UnmarshalData = wireUnmarshalData,
      MarshalEnvelope = wireMarshalEnvelope,
      UnmarshalEnvelope = wireUnmarshalEnvelope,
      SHA256_Sum = standInDigest 32,
      Supported = (\<lambda>alg. wireSize alg \<noteq> 0),
      Size = wireSize,
      HashSum = (\<lambda>alg. standInDigest (wireSize alg)),
      publicName = (\<lambda>p. Some (put16 HashAlgorithmSHA256 @ standInDigest 32 p)),
      normalizeHandleForMap = wireNormalize,
      tpmContextSave = save,
      tpmContextLoad = load,
      tpmStartup = start\<rparr>"

text \<open>Sample inputs: a session, an object, a TPM that accepts everything, a host state.\<close>

definition sampleSession :: sessionContext where
  "sampleSession =
     \<lparr>handle = 0x02000000, usable = True, isAudit = True, isExclusive = True,
      hashAlg = HashAlgorithmSHA256, sessionType = SessionTypeHMAC, policyHMACType = 0,
      isBound = False, boundEntity = [], sessionKey = [],
      nonceCaller = replicate 32 1, nonceTPM = replicate 32 2,
      symmetric = \<lparr>Algorithm = SymAlgorithmAES, KeyBits = 128, Mode = SymModeCFB\<rparr>\<rparr>"

definition sampleObject :: "bytes objectContext" where
  "sampleObject =
     \<lparr>obj_handle = 0x80000001, public = [1, 2, 4],
      name = put16 HashAlgorithmSHA256 @ standInDigest 32 [1, 2, 4]\<rparr>"

definition sampleEnv :: "bytes env" where
  "sampleEnv =
     wireEnv
       (\<lambda>t r. Inr \<lparr>Sequence = 1, SavedHandle = Handle_of (heap t r), Hierarchy = HandleNull,
                   Blob = [9, 9]\<rparr>)
       (\<lambda>t c. Inr (SavedHandle c))
       (\<lambda>t s. None)"

definition sampleTPM :: "bytes TPMContext" where
  "sampleTPM =
     \<lparr>heap = (\<lambda>r. if r = 0 then SessionContext sampleSession
                  else if r = 1 then ObjectContext sampleObject
                  else OtherContext 0x40000001),
      nextRef = 3,
      resources = [(0x02000000, 0), (0x80000001, 1), (0x40000001, 2)],
      exclusiveSession = None,
      issued = []\<rparr>"

definition sampleSessionData :: sessionContextData where
  "sampleSessionData =
     \<lparr>IsAudit = True, IsExclusive = True, HashAlg = HashAlgorithmSHA256,
      SessionType = SessionTypeHMAC, PolicyHMACType = 0, IsBound = False, BoundEntity = [],
      SessionKey = [], NonceCaller = replicate 32 1, NonceTPM = replicate 32 2,
      Symmetric = \<lparr>Algorithm = SymAlgorithmAES, KeyBits = 128, Mode = SymModeCFB\<rparr>\<rparr>"

text \<open>The host state after the sample session has been saved.\<close>

definition sampleSavedTPM :: "bytes TPMContext" where
  "sampleSavedTPM =
     sampleTPM
       \<lparr>heap := (heap sampleTPM)(0 := SessionContext (sampleSession\<lparr>usable := False\<rparr>)),
        issued := [(CommandContextSave, [PHandleContext 0])]\<rparr>"

text \<open>The same collaborators, with a TPM that answers \<open>ContextLoad\<close> with another handle.\<close>

definition sampleWrongHandleEnv :: "bytes env" where
  "sampleWrongHandleEnv = sampleEnv\<lparr>tpmContextLoad := (\<lambda>t c. Inr 0x02000001)\<rparr>"

text \<open>Collaborators of \<open>Create\<close> for a sample run: every context passes the check, the TPM
  reports a failure.\<close>

definition sampleCreateEnv :: "(bytes, bytes, unit, unit, unit, unit) createEnv" where
  "sampleCreateEnv =
     \<lparr>zeroSensitiveCreate = [],
      checkResourceContextParam = (\<lambda>t rc. None),
      tpmCreate = (\<lambda>t cmd. Inl (TPMFailure 1))\<rparr>"

definition sampleImpl :: "(bytes, bytes, unit, unit) tpmImpl" where
  "sampleImpl = \<lparr>implResources = [], implIssued = []\<rparr>"


section \<open>The concrete marshaller inverts itself\<close>

lemma get16_put16: "get16 (put16 w @ rest) = Some (w, rest)"
proof -
  have "push_bit 8 (ucast (ucast (drop_bit 8 w) :: byte)) OR ucast (ucast w :: byte) = w"
    by (rule bit_word_eqI) (auto simp: bit_simps)
  then show ?thesis by (simp add: put16_def)
qed

lemma getSized_putSized:
  assumes "putSized b = Some e"
  shows "getSized (e @ rest) = Some (b, rest)"
proof -
  from assms have len: "length b < 65536" and e: "e = put16 (of_nat (length b)) @ b"
    by (auto simp: putSized_def split: if_splits)
  have "unat (of_nat (length b) :: 16 word) = length b"
    using len by (simp add: unat_of_nat)
  then show ?thesis
    by (simp add: e getSized_def get16_put16)
qed

lemma getBool_putBool: "getBool (putBool b @ rest) = Some (b, rest)"
  by (simp add: putBool_def)

lemma wireUnmarshalEnvelope_marshal:
  assumes "wireMarshalEnvelope alg integrity data = Some b"
  shows "wireUnmarshalEnvelope b = Some (alg, integrity, data)"
proof -
  from assms obtain c d where
    c: "putSized integrity = Some c" and d: "putSized data = Some d" and
    b: "b = put16 alg @ c @ d"
    by (auto simp: wireMarshalEnvelope_def split: bind_splits)
  have "getSized d = Some (data, [])"
    using getSized_putSized [OF d, of "[]"] by simp
  then show ?thesis
    by (simp add: wireUnmarshalEnvelope_def b get16_put16 getSized_putSized [OF c])
qed

lemma wireUnmarshalSession_marshal:
  assumes "wireMarshalSession dd = Some e"
  shows "wireUnmarshalSession (e @ rest) = Some (dd, rest)"
proof -
  from assms obtain be sk nc nt where
    p: "putSized (BoundEntity dd) = Some be" "putSized (SessionKey dd) = Some sk"
       "putSized (NonceCaller dd) = Some nc" "putSized (NonceTPM dd) = Some nt" and
    e: "e = putBool (IsAudit dd) @ putBool (IsExclusive dd) @ put16 (HashAlg dd)
                @ [SessionType dd, PolicyHMACType dd] @ putBool (IsBound dd)
                @ be @ sk @ nc @ nt
                @ put16 (Algorithm (Symmetric dd)) @ put16 (KeyBits (Symmetric dd))
                @ put16 (Mode (Symmetric dd))"
    by (auto simp: wireMarshalSession_def split: bind_splits)
  show ?thesis
    by (simp add: wireUnmarshalSession_def e getBool_putBool get16_put16
        getSized_putSized [OF p(1)] getSized_putSized [OF p(2)]
        getSized_putSized [OF p(3)] getSized_putSized [OF p(4)])
qed

lemma contextType_distinct: "contextTypeSession \<noteq> contextTypeObject"
  by (simp add: contextTypeSession_def contextTypeObject_def)

lemma wireUnmarshalData_marshal:
  assumes "wireMarshalData d = Some b"
  shows "wireUnmarshalData b = Some d"
proof -
  from assms obtain u tb where
    u: "(case Data d of
           ObjectData od \<Rightarrow>
             (if ContextType d = contextTypeObject
              then do { p \<leftarrow> putSized (Public od); n \<leftarrow> putSized (Name od); Some (p @ n) }
              else None)
         | SessionData sd \<Rightarrow>
             (if ContextType d = contextTypeSession then wireMarshalSession sd else None)
         | NilData \<Rightarrow> None) = Some u" and
    tb: "putSized (TPMBlob d) = Some tb" and b: "b = ContextType d # u @ tb"
    by (auto simp: wireMarshalData_def split: bind_splits)
  have tb': "getSized tb = Some (TPMBlob d, [])"
    using getSized_putSized [OF tb, of "[]"] by simp
  show ?thesis
  proof (cases "Data d")
    case (ObjectData od)
    with u obtain p n where ct: "ContextType d = contextTypeObject" and
      p: "putSized (Public od) = Some p" and n: "putSized (Name od) = Some n" and
      u': "u = p @ n"
      by (auto split: if_splits bind_splits)
    show ?thesis
      using ObjectData ct tb'
      by (simp add: wireUnmarshalData_def b u' getSized_putSized [OF p] getSized_putSized [OF n])
  next
    case (SessionData sd)
    with u have ct: "ContextType d = contextTypeSession" and m: "wireMarshalSession sd = Some u"
      by (auto split: if_splits)
    show ?thesis
      using SessionData ct tb' contextType_distinct
      by (simp add: wireUnmarshalData_def b wireUnmarshalSession_marshal [OF m])
  next
    case NilData
    with u show ?thesis by simp
  qed
qed

lemma marshallerInverts_wireEnv: "marshallerInverts (wireEnv save load start)"
  by (simp add: marshallerInverts_def wireEnv_def wireUnmarshalData_marshal
      wireUnmarshalEnvelope_marshal)

lemma marshallerInverts_sampleEnv: "marshallerInverts sampleEnv"
  unfolding sampleEnv_def by (rule marshallerInverts_wireEnv)

lemma sha256Registered_sampleEnv: "sha256Registered sampleEnv"
  by (simp add: sha256Registered_def sampleEnv_def wireEnv_def wireSize_def
      HashAlgorithmSHA256_def)

section \<open>Wrapping\<close>

lemma wrapContextBlob_Inr:
  "(wrapContextBlob env tpmBlob hc = Inr outer) =
     (\<exists>innerData. MarshalData env (contextData tpmBlob hc) = Some innerData
        \<and> MarshalEnvelope env HashAlgorithmSHA256 (SHA256_Sum env innerData) innerData
            = Some outer)"
  by (auto simp: wrapContextBlob_def Let_def split: option.splits)

lemma wrap_sampleSession:
  "\<exists>blob. wrapContextBlob sampleEnv [9, 9] (SessionContext sampleSession) = Inr blob"
  by (simp add: wrapContextBlob_def sampleEnv_def wireEnv_def wireMarshalData_def
      wireMarshalSession_def wireMarshalEnvelope_def putSized_def sampleSession_def
      contextTypeSession_def contextTypeObject_def put16_def putBool_def standInDigest_def)

lemma wrap_sampleObject:
  "\<exists>blob. wrapContextBlob sampleEnv [9, 9] (ObjectContext sampleObject) = Inr blob"
  by (simp add: wrapContextBlob_def sampleEnv_def wireEnv_def wireMarshalData_def
      wireMarshalEnvelope_def putSized_def sampleObject_def
      contextTypeObject_def put16_def standInDigest_def)

text \<open>
  C3.  For an object and for a session handle context, \<open>wrapContextBlob\<close> returns a blob
  exactly when the payload (context type, the variant's metadata, the TPM's opaque
  blob) packs to some \<open>innerData\<close> and the triple (SHA-256 identifier, SHA-256 digest
  of \<open>innerData\<close>, \<open>innerData\<close>) packs to that blob.  The checksum algorithm in the
  envelope is always SHA-256.
\<close>

theorem wrapContextBlob_layout:
  "((wrapContextBlob env tpmBlob (ObjectContext oc) = Inr outer) =
      (\<exists>innerData.
         MarshalData env
           \<lparr>ContextType = contextTypeObject,
            Data = ObjectData \<lparr>Public = public oc, Name = name oc\<rparr>,
            TPMBlob = tpmBlob\<rparr> = Some innerData
         \<and> MarshalEnvelope env HashAlgorithmSHA256 (SHA256_Sum env innerData) innerData
             = Some outer))
   \<and> ((wrapContextBlob env tpmBlob (SessionContext sc) = Inr outer) =
      (\<exists>innerData.
         MarshalData env
           \<lparr>ContextType = contextTypeSession,
            Data = SessionData
              \<lparr>IsAudit = isAudit sc, IsExclusive = isExclusive sc, HashAlg = hashAlg sc,
               SessionType = sessionType sc, PolicyHMACType = policyHMACType sc,
               IsBound = isBound sc, BoundEntity = boundEntity sc,
               SessionKey = sessionKey sc, NonceCaller = nonceCaller sc,
               NonceTPM = nonceTPM sc, Symmetric = symmetric sc\<rparr>,
            TPMBlob = tpmBlob\<rparr> = Some innerData
         \<and> MarshalEnvelope env HashAlgorithmSHA256 (SHA256_Sum env innerData) innerData
             = Some outer))"
  by (simp add: wrapContextBlob_Inr)

theorem wrapContextBlob_layout_witness:
  "\<exists>outer innerData.
     wrapContextBlob sampleEnv [9, 9] (ObjectContext sampleObject) = Inr outer
     \<and> MarshalData sampleEnv
          \<lparr>ContextType = contextTypeObject,
           Data = ObjectData \<lparr>Public = public sampleObject, Name = name sampleObject\<rparr>,
           TPMBlob = [9, 9]\<rparr> = Some innerData
     \<and> MarshalEnvelope sampleEnv HashAlgorithmSHA256 (SHA256_Sum sampleEnv innerData) innerData
          = Some outer"
proof -
  obtain outer where w: "wrapContextBlob sampleEnv [9, 9] (ObjectContext sampleObject) = Inr outer"
    using wrap_sampleObject by blast
  with wrapContextBlob_layout [of sampleEnv "[9, 9]" sampleObject outer]
  show ?thesis by blast
qed

section \<open>Unwrapping\<close>

lemma unwrap_after_checksum:
  assumes "UnmarshalEnvelope env (Blob c) = Some (alg, integrity, data)"
    and "Supported env alg" and "HashSum env alg data = integrity"
    and "UnmarshalData env data = Some d"
  shows "unwrapContextBlob env c =
           (case crossValidate env (SavedHandle c) d of Some err \<Rightarrow> Inl err | None \<Rightarrow> Inr d)"
  using assms by (simp add: unwrapContextBlob_def)

lemma wrapped_decodes:
  assumes "marshallerInverts env" and "wrapContextBlob env tpmBlob hc = Inr blob"
  obtains inner where
    "UnmarshalEnvelope env blob = Some (HashAlgorithmSHA256, SHA256_Sum env inner, inner)"
    and "UnmarshalData env inner = Some (contextData tpmBlob hc)"
proof -
  from assms(2) obtain inner where
    m: "MarshalData env (contextData tpmBlob hc) = Some inner" and
    e: "MarshalEnvelope env HashAlgorithmSHA256 (SHA256_Sum env inner) inner = Some blob"
    by (auto simp: wrapContextBlob_Inr)
  from assms(1) m have "UnmarshalData env inner = Some (contextData tpmBlob hc)"
    by (simp add: marshallerInverts_def)
  moreover from assms(1) e
  have "UnmarshalEnvelope env blob = Some (HashAlgorithmSHA256, SHA256_Sum env inner, inner)"
    by (simp add: marshallerInverts_def)
  ultimately show ?thesis using that by blast
qed

lemma unwrap_wrapped:
  assumes "marshallerInverts env" and "sha256Registered env"
    and "wrapContextBlob env tpmBlob hc = Inr blob" and "Blob c = blob"
  shows "unwrapContextBlob env c =
           (case crossValidate env (SavedHandle c) (contextData tpmBlob hc) of
              Some err \<Rightarrow> Inl err
            | None \<Rightarrow> Inr (contextData tpmBlob hc))"
proof -
  from wrapped_decodes [OF assms(1,3)] obtain inner where
    ue: "UnmarshalEnvelope env blob = Some (HashAlgorithmSHA256, SHA256_Sum env inner, inner)"
    and um: "UnmarshalData env inner = Some (contextData tpmBlob hc)"
    by blast
  from assms(2) have s: "Supported env HashAlgorithmSHA256"
    "HashSum env HashAlgorithmSHA256 inner = SHA256_Sum env inner"
    by (simp_all add: sha256Registered_def)
  from ue assms(4) have "UnmarshalEnvelope env (Blob c)
      = Some (HashAlgorithmSHA256, SHA256_Sum env inner, inner)" by simp
  from unwrap_after_checksum [OF this s um] show ?thesis .
qed

lemma Handle_Type_sampleSession: "Handle_Type 0x02000000 = HandleTypeHMACSession"
  by (simp add: Handle_Type_def HandleTypeHMACSession_def)

lemma Handle_Type_sampleObject: "Handle_Type 0x80000001 = HandleTypeTransient"
  by (simp add: Handle_Type_def HandleTypeTransient_def)

lemma valid_sampleSession:
  "crossValidate sampleEnv 0x02000000 (contextData tpmBlob (SessionContext sampleSession)) = None"
  by (simp add: crossValidate_def validateSession_def sampleEnv_def wireEnv_def
      sampleSession_def contextType_distinct Handle_Type_sampleSession
      wireSize_def HashAlgorithmSHA256_def SessionTypeHMAC_def policyHMACTypeMax_def
      SymAlgorithmAES_def Sym_def SymModeCFB_def)

lemma ContextLoad_Some:
  "ContextLoad env (Some c) t =
     (case unwrapContextBlob env c of
        Inl err \<Rightarrow> (Inl err, t)
      | Inr d \<Rightarrow>
          (case tpmContextLoad env t
                  \<lparr>Sequence = Sequence c, SavedHandle = SavedHandle c,
                   Hierarchy = Hierarchy c, Blob = TPMBlob d\<rparr> of
             Inl err \<Rightarrow> (Inl err, RunCommand CommandContextLoad
                  [PContext \<lparr>Sequence = Sequence c, SavedHandle = SavedHandle c,
                   Hierarchy = Hierarchy c, Blob = TPMBlob d\<rparr>] t)
           | Inr loadedHandle \<Rightarrow> finishLoad env c d loadedHandle
               (RunCommand CommandContextLoad
                  [PContext \<lparr>Sequence = Sequence c, SavedHandle = SavedHandle c,
                   Hierarchy = Hierarchy c, Blob = TPMBlob d\<rparr>] t)))"
  by (simp add: ContextLoad_def Let_def split: sum.splits)






section \<open>The checksum\<close>

lemma list_update_xor_neq:
  fixes xs :: "bytes"
  assumes "i < length xs" and "m \<noteq> 0"
  shows "xs[i := xs ! i XOR m] \<noteq> xs"
proof
  assume "xs[i := xs ! i XOR m] = xs"
  then have "xs[i := xs ! i XOR m] ! i = xs ! i" by simp
  with assms(1) have "xs ! i XOR m = xs ! i" by simp
  then have "(xs ! i XOR m) XOR xs ! i = xs ! i XOR xs ! i" by simp
  then have "m = 0" by (simp add: xor.commute xor.left_commute)
  with assms(2) show False by simp
qed

lemma ContextLoad_bad_checksum:
  assumes "UnmarshalEnvelope env (Blob c) = Some (alg, integrity, data)"
    and "Supported env alg" and "HashSum env alg data \<noteq> integrity"
  shows "ContextLoad env (Some c) t = (Inl (Error ''cannot load context: invalid checksum''), t)"
  using assms by (simp add: ContextLoad_def unwrapContextBlob_def)

text \<open>
  C2.  Whenever the envelope of the blob handed to \<open>ContextLoad\<close> unpacks and names a
  supported checksum algorithm, the checksum of the inner data is recomputed with that
  algorithm; if it differs from the stored checksum, \<open>ContextLoad\<close> returns the error
  ``invalid checksum'' and the TPM context is exactly as before: no command was issued,
  nothing is retried.  In particular this is so when the stored checksum is the right
  one with one byte changed (byte \<open>i\<close> combined by exclusive-or with any \<open>m \<noteq> 0\<close>).
\<close>

theorem ContextLoad_checksum_mismatch:
  assumes "UnmarshalEnvelope env (Blob c) = Some (alg, integrity, data)"
    and "Supported env alg"
  shows "(HashSum env alg data \<noteq> integrity \<longrightarrow>
            ContextLoad env (Some c) t = (Inl (Error ''cannot load context: invalid checksum''), t))
       \<and> (\<forall>i m. i < length (HashSum env alg data) \<and> m \<noteq> 0
              \<and> integrity = (HashSum env alg data)[i := HashSum env alg data ! i XOR m] \<longrightarrow>
            ContextLoad env (Some c) t = (Inl (Error ''cannot load context: invalid checksum''), t))"
proof (intro conjI allI impI)
  assume "HashSum env alg data \<noteq> integrity"
  with assms show "ContextLoad env (Some c) t = (Inl (Error ''cannot load context: invalid checksum''), t)"
    by (rule ContextLoad_bad_checksum)
next
  fix i m
  assume h: "i < length (HashSum env alg data) \<and> m \<noteq> 0
              \<and> integrity = (HashSum env alg data)[i := HashSum env alg data ! i XOR m]"
  then have "HashSum env alg data \<noteq> integrity"
    using list_update_xor_neq [of i "HashSum env alg data" m] by metis
  with assms show "ContextLoad env (Some c) t = (Inl (Error ''cannot load context: invalid checksum''), t)"
    by (rule ContextLoad_bad_checksum)
qed

lemma marshal_sampleObject:
  "\<exists>inner. MarshalData sampleEnv (contextData [9, 9] (ObjectContext sampleObject)) = Some inner
     \<and> length inner < 65536"
  by (simp add: sampleEnv_def wireEnv_def wireMarshalData_def
      putSized_def sampleObject_def contextTypeObject_def put16_def standInDigest_def)

lemma HashSum_sampleEnv:
  "HashSum sampleEnv HashAlgorithmSHA256 = standInDigest 32"
  "SHA256_Sum sampleEnv = standInDigest 32"
  "Supported sampleEnv HashAlgorithmSHA256"
  "MarshalEnvelope sampleEnv = wireMarshalEnvelope"
  "UnmarshalEnvelope sampleEnv = wireUnmarshalEnvelope"
  by (simp_all add: sampleEnv_def wireEnv_def wireSize_def HashAlgorithmSHA256_def)

theorem ContextLoad_checksum_mismatch_witness:
  "case MarshalData sampleEnv (contextData [9, 9] (ObjectContext sampleObject)) of
     None \<Rightarrow> False
   | Some inner \<Rightarrow>
       (case MarshalEnvelope sampleEnv HashAlgorithmSHA256
               ((SHA256_Sum sampleEnv inner)[0 := SHA256_Sum sampleEnv inner ! 0 XOR 1]) inner of
          None \<Rightarrow> False
        | Some forged \<Rightarrow>
            ContextLoad sampleEnv
              (Some \<lparr>Sequence = 1, SavedHandle = 0x80000001, Hierarchy = HandleNull,
                     Blob = forged\<rparr>) sampleTPM
            = (Inl (Error ''cannot load context: invalid checksum''), sampleTPM))"
proof -
  obtain inner where m: "MarshalData sampleEnv (contextData [9, 9] (ObjectContext sampleObject)) = Some inner"
    and len: "length inner < 65536"
    using marshal_sampleObject by blast
  let ?sum = "HashSum sampleEnv HashAlgorithmSHA256 inner"
  let ?bad = "?sum[0 := ?sum ! 0 XOR 1]"
  have "\<exists>forged. wireMarshalEnvelope HashAlgorithmSHA256 ?bad inner = Some forged"
    using len by (simp add: wireMarshalEnvelope_def putSized_def HashSum_sampleEnv standInDigest_def)
  then obtain forged where f: "wireMarshalEnvelope HashAlgorithmSHA256 ?bad inner = Some forged"
    by blast
  let ?c = "\<lparr>Sequence = 1, SavedHandle = 0x80000001, Hierarchy = HandleNull, Blob = forged\<rparr>"
  have u: "UnmarshalEnvelope sampleEnv (Blob ?c) = Some (HashAlgorithmSHA256, ?bad, inner)"
    using wireUnmarshalEnvelope_marshal [OF f] by (simp add: HashSum_sampleEnv)
  have l: "0 < length ?sum \<and> (1::byte) \<noteq> 0 \<and> ?bad = ?sum[0 := ?sum ! 0 XOR 1]"
    by (simp add: HashSum_sampleEnv standInDigest_def)
  from ContextLoad_checksum_mismatch [OF u HashSum_sampleEnv(3), of sampleTPM, THEN conjunct2, rule_format, OF l]
  show ?thesis
    using m f by (simp add: HashSum_sampleEnv)
qed

section \<open>Cross-validation\<close>

lemma contextData_sampleSession:
  "contextData b (SessionContext sampleSession)
     = \<lparr>ContextType = contextTypeSession, Data = SessionData sampleSessionData, TPMBlob = b\<rparr>"
  by (simp add: sampleSession_def sampleSessionData_def)

lemma crossValidate_object:
  "crossValidate env h \<lparr>ContextType = contextTypeObject, Data = ObjectData od, TPMBlob = b\<rparr> =
     (if Handle_Type h \<noteq> HandleTypeTransient then
        Some (Error ''cannot load context: inconsistent handle type'')
      else if \<not> compareName env (Public od) (Name od) then
        Some (Error ''cannot load context for object: public area and name don't match'')
      else None)"
  by (simp add: crossValidate_def)

lemma crossValidate_session:
  "crossValidate env h \<lparr>ContextType = contextTypeSession, Data = SessionData sd, TPMBlob = b\<rparr> =
     (if \<not> (Handle_Type h = HandleTypeHMACSession \<or> Handle_Type h = HandleTypePolicySession) then
        Some (Error ''cannot load context: inconsistent handle type'')
      else validateSession env sd)"
  by (simp add: crossValidate_def contextType_distinct)

lemma compareName_iff: "compareName env p n = (publicName env p = Some n)"
  by (simp add: compareName_def split: option.splits)

lemma if_Some_None: "((if c then Some e else r) = None) = (\<not> c \<and> r = None)"
  by simp

lemma validateSession_None:
  "(validateSession env sd = None) =
     ((IsExclusive sd \<longrightarrow> IsAudit sd)
      \<and> Supported env (HashAlg sd)
      \<and> SessionType sd \<in> {SessionTypeHMAC, SessionTypePolicy, SessionTypeTrial}
      \<and> PolicyHMACType sd \<le> policyHMACTypeMax
      \<and> (IsBound sd \<longleftrightarrow> BoundEntity sd \<noteq> [])
      \<and> (length (SessionKey sd) = 0 \<or> length (SessionKey sd) = Size env (HashAlg sd))
      \<and> length (NonceCaller sd) = Size env (HashAlg sd)
      \<and> length (NonceTPM sd) = Size env (HashAlg sd)
      \<and> Algorithm (Symmetric sd)
          \<in> {SymAlgorithmAES, SymAlgorithmXOR, SymAlgorithmNull, SymAlgorithmSM4,
              SymAlgorithmCamellia}
      \<and> (Algorithm (Symmetric sd) \<in> {SymAlgorithmAES, SymAlgorithmSM4, SymAlgorithmCamellia}
           \<longrightarrow> Mode (Symmetric sd) = SymModeCFB))"
  unfolding validateSession_def Let_def Sym_def if_Some_None
  by (simp add: not_less) blast

lemma validateSession_Error:
  "validateSession env sd = Some e \<Longrightarrow> \<exists>msg. e = Error msg"
  unfolding validateSession_def Let_def
  by (auto split: if_splits)

lemma crossValidate_session_None:
  "(crossValidate env h \<lparr>ContextType = contextTypeSession, Data = SessionData sd, TPMBlob = b\<rparr> = None)
     = sessionConsistent env h sd"
  unfolding crossValidate_session sessionConsistent_def
  by (simp add: validateSession_None)

lemma crossValidate_session_Error:
  "(\<exists>msg. crossValidate env h \<lparr>ContextType = contextTypeSession, Data = SessionData sd, TPMBlob = b\<rparr>
            = Some (Error msg))
     = (\<not> sessionConsistent env h sd)"
proof -
  let ?r = "crossValidate env h \<lparr>ContextType = contextTypeSession, Data = SessionData sd, TPMBlob = b\<rparr>"
  have "?r = Some e \<Longrightarrow> \<exists>msg. e = Error msg" for e
    unfolding crossValidate_session by (auto split: if_splits dest: validateSession_Error)
  then have "(\<exists>msg. ?r = Some (Error msg)) = (?r \<noteq> None)"
    by (cases ?r) auto
  then show ?thesis by (simp add: crossValidate_session_None)
qed

lemma crossValidate_object_None:
  "(crossValidate env h \<lparr>ContextType = contextTypeObject, Data = ObjectData od, TPMBlob = b\<rparr> = None)
     = objectConsistent env h od"
  by (simp add: crossValidate_object objectConsistent_def compareName_iff)

lemma crossValidate_object_Error:
  "(\<exists>msg. crossValidate env h \<lparr>ContextType = contextTypeObject, Data = ObjectData od, TPMBlob = b\<rparr>
            = Some (Error msg))
     = (\<not> objectConsistent env h od)"
  by (auto simp: crossValidate_object objectConsistent_def compareName_iff)

text \<open>
  C4.  Once the envelope is unpacked, the checksum has passed and the payload is
  unpacked, the unwrapping part of \<open>ContextLoad\<close> succeeds exactly when the payload obeys
  the rules of its variant, and returns an \<open>Error\<close> naming an inconsistency exactly when
  it does not.  The rules are \<open>objectConsistent\<close> (saved handle transient, Name equal to
  the name of the public area) and \<open>sessionConsistent\<close> (saved handle an HMAC or policy
  session, exclusive implies audit, hash supported, session type HMAC, policy or trial,
  policy-HMAC sub-type in range, bound flag iff bound-entity Name non-empty, session
  key empty or of digest size, both nonces of digest size, symmetric algorithm
  recognised, block ciphers in CFB mode).
\<close>

theorem unwrapContextBlob_cross_validation:
  assumes "UnmarshalEnvelope env (Blob c) = Some (alg, integrity, data)"
    and "Supported env alg" and "HashSum env alg data = integrity"
    and "UnmarshalData env data = Some d"
  shows "(d = \<lparr>ContextType = contextTypeObject, Data = ObjectData od, TPMBlob = b\<rparr> \<longrightarrow>
            (unwrapContextBlob env c = Inr d) = objectConsistent env (SavedHandle c) od
            \<and> (\<exists>msg. unwrapContextBlob env c = Inl (Error msg))
                = (\<not> objectConsistent env (SavedHandle c) od))
       \<and> (d = \<lparr>ContextType = contextTypeSession, Data = SessionData sd, TPMBlob = b\<rparr> \<longrightarrow>
            (unwrapContextBlob env c = Inr d) = sessionConsistent env (SavedHandle c) sd
            \<and> (\<exists>msg. unwrapContextBlob env c = Inl (Error msg))
                = (\<not> sessionConsistent env (SavedHandle c) sd))"
proof -
  let ?r = "crossValidate env (SavedHandle c) d"
  have u: "unwrapContextBlob env c = (case ?r of Some err \<Rightarrow> Inl err | None \<Rightarrow> Inr d)"
    using assms by (rule unwrap_after_checksum)
  have ok: "(unwrapContextBlob env c = Inr d) = (?r = None)"
    by (simp add: u split: option.splits)
  have bad: "(\<exists>msg. unwrapContextBlob env c = Inl (Error msg)) = (\<exists>msg. ?r = Some (Error msg))"
    by (simp add: u split: option.splits)
  show ?thesis
    unfolding ok bad
    by (auto simp: crossValidate_object_None crossValidate_object_Error
        crossValidate_session_None crossValidate_session_Error)
qed

lemma valid_sampleSessionData:
  "crossValidate sampleEnv 0x02000000
     \<lparr>ContextType = contextTypeSession, Data = SessionData sampleSessionData, TPMBlob = []\<rparr>
   = None"
  using valid_sampleSession [of "[]"] unfolding contextData_sampleSession .

lemma consistent_sampleSessionData: "sessionConsistent sampleEnv 0x02000000 sampleSessionData"
  using valid_sampleSessionData unfolding crossValidate_session_None .

lemma sampleObject_handle_not_session: "Handle_Type 0x80000001 \<notin> {HandleTypeHMACSession, HandleTypePolicySession}"
  by (simp add: Handle_Type_sampleObject HandleTypeTransient_def
      HandleTypeHMACSession_def HandleTypePolicySession_def)

lemma inconsistent_sampleSessionData: "\<not> sessionConsistent sampleEnv 0x80000001 sampleSessionData"
  using sampleObject_handle_not_session unfolding sessionConsistent_def by blast

theorem unwrapContextBlob_cross_validation_witness:
  "sessionConsistent sampleEnv 0x02000000 sampleSessionData
   \<and> \<not> sessionConsistent sampleEnv 0x80000001 sampleSessionData
   \<and> (case wrapContextBlob sampleEnv [9, 9] (SessionContext sampleSession) of
        Inl e \<Rightarrow> False
      | Inr blob \<Rightarrow>
          unwrapContextBlob sampleEnv
            \<lparr>Sequence = 1, SavedHandle = 0x02000000, Hierarchy = HandleNull, Blob = blob\<rparr>
          = Inr \<lparr>ContextType = contextTypeSession, Data = SessionData sampleSessionData,
                 TPMBlob = [9, 9]\<rparr>
          \<and> (\<exists>msg. unwrapContextBlob sampleEnv
                \<lparr>Sequence = 1, SavedHandle = 0x80000001, Hierarchy = HandleNull, Blob = blob\<rparr>
              = Inl (Error msg)))"
proof -
  obtain blob where
    w: "wrapContextBlob sampleEnv [9, 9] (SessionContext sampleSession) = Inr blob"
    using wrap_sampleSession by blast
  from wrapped_decodes [OF marshallerInverts_sampleEnv w] obtain inner where
    ue: "UnmarshalEnvelope sampleEnv blob
           = Some (HashAlgorithmSHA256, SHA256_Sum sampleEnv inner, inner)"
    and um0: "UnmarshalData sampleEnv inner
           = Some (contextData [9, 9] (SessionContext sampleSession))"
    by blast
  have um: "UnmarshalData sampleEnv inner
           = Some \<lparr>ContextType = contextTypeSession, Data = SessionData sampleSessionData,
                   TPMBlob = [9, 9]\<rparr>"
    using um0 unfolding contextData_sampleSession .
  have hs: "HashSum sampleEnv HashAlgorithmSHA256 inner = SHA256_Sum sampleEnv inner"
    by (simp add: HashSum_sampleEnv)
  let ?good = "\<lparr>Sequence = 1, SavedHandle = 0x02000000, Hierarchy = HandleNull, Blob = blob\<rparr>"
  let ?bad = "\<lparr>Sequence = 1, SavedHandle = 0x80000001, Hierarchy = HandleNull, Blob = blob\<rparr>"
  have "UnmarshalEnvelope sampleEnv (Blob ?good)
          = Some (HashAlgorithmSHA256, SHA256_Sum sampleEnv inner, inner)"
    using ue by simp
  from unwrapContextBlob_cross_validation [OF this HashSum_sampleEnv(3) hs um, of "\<lparr>Public = [], Name = []\<rparr>" "[9, 9]" sampleSessionData,
      THEN conjunct2]
  have good: "unwrapContextBlob sampleEnv ?good
          = Inr \<lparr>ContextType = contextTypeSession, Data = SessionData sampleSessionData,
                 TPMBlob = [9, 9]\<rparr>"
    using consistent_sampleSessionData by simp
  have "UnmarshalEnvelope sampleEnv (Blob ?bad)
          = Some (HashAlgorithmSHA256, SHA256_Sum sampleEnv inner, inner)"
    using ue by simp
  from unwrapContextBlob_cross_validation [OF this HashSum_sampleEnv(3) hs um, of "\<lparr>Public = [], Name = []\<rparr>" "[9, 9]" sampleSessionData,
      THEN conjunct2]
  have bad: "\<exists>msg. unwrapContextBlob sampleEnv ?bad = Inl (Error msg)"
    using inconsistent_sampleSessionData by simp
  show ?thesis
    using good bad consistent_sampleSessionData inconsistent_sampleSessionData
    by (simp add: w)
qed

section \<open>Saving and loading: the host state\<close>

lemma heap_addHandleContext [simp]: "heap (addHandleContext env rc t) = heap t"
  by (simp add: addHandleContext_def)

lemma exclusiveSession_addHandleContext [simp]:
  "exclusiveSession (addHandleContext env rc t) = exclusiveSession t"
  by (simp add: addHandleContext_def)

lemma heap_RunCommand [simp]: "heap (RunCommand c args t) = heap t"
  by (simp add: RunCommand_def)

lemma resources_RunCommand [simp]: "resources (RunCommand c args t) = resources t"
  by (simp add: RunCommand_def)

lemma exclusiveSession_RunCommand [simp]: "exclusiveSession (RunCommand c args t) = exclusiveSession t"
  by (simp add: RunCommand_def)

lemma nextRef_RunCommand [simp]: "nextRef (RunCommand c args t) = nextRef t"
  by (simp add: RunCommand_def)

lemma crossValidate_None_cases:
  assumes "crossValidate env h d = None"
  shows "(ContextType d = contextTypeObject \<and> (\<exists>od. Data d = ObjectData od))
       \<or> (ContextType d = contextTypeSession \<and> ContextType d \<noteq> contextTypeObject
            \<and> (\<exists>sd. Data d = SessionData sd))"
  using assms
  by (auto simp: crossValidate_def split: if_splits resourceContextDataU.splits)

lemma unwrapContextBlob_Inr_valid:
  "unwrapContextBlob env c = Inr d \<Longrightarrow> crossValidate env (SavedHandle c) d = None"
  by (auto simp: unwrapContextBlob_def split: option.splits if_splits)

text \<open>What a successful session load leaves behind.\<close>

lemma finishLoad_session:
  assumes "finishLoad env c d loadedHandle t = (Inr rc, t')"
    and "ContextType d = contextTypeSession" and "ContextType d \<noteq> contextTypeObject"
    and "Data d = SessionData dd"
  shows "\<exists>sc. heap t' rc = SessionContext
                 (restoreSession loadedHandle (exclusiveSession t = Some rc) dd sc)
          \<and> exclusiveSession t' = exclusiveSession t
          \<and> (\<forall>r. r \<noteq> rc \<longrightarrow> heap t' r = heap t r)
          \<and> (\<forall>r0. map_of (resources t) (normalizeHandleForMap env loadedHandle) = Some r0 \<longrightarrow> rc = r0)
          \<and> loadedHandle = SavedHandle c"
  using assms
  by (auto simp: finishLoad_def sessionFor_def Let_def
      split: if_splits sum.splits option.splits HandleContext.splits prod.splits)

lemma ContextLoad_session:
  assumes "ContextLoad env (Some c) t = (Inr rc, t')"
    and "unwrapContextBlob env c = Inr d" and "Data d = SessionData dd"
  shows "\<exists>sc. heap t' rc = SessionContext
                 (restoreSession (SavedHandle c) (exclusiveSession t = Some rc) dd sc)
          \<and> exclusiveSession t' = exclusiveSession t
          \<and> (\<forall>r. r \<noteq> rc \<longrightarrow> heap t' r = heap t r)
          \<and> (\<forall>r0. map_of (resources t) (normalizeHandleForMap env (SavedHandle c)) = Some r0 \<longrightarrow> rc = r0)"
proof -
  from assms(2) have "crossValidate env (SavedHandle c) d = None"
    by (rule unwrapContextBlob_Inr_valid)
  from crossValidate_None_cases [OF this] assms(3)
  have ct: "ContextType d = contextTypeSession" "ContextType d \<noteq> contextTypeObject"
    by auto
  let ?t1 = "RunCommand CommandContextLoad
                  [PContext \<lparr>Sequence = Sequence c, SavedHandle = SavedHandle c,
                   Hierarchy = Hierarchy c, Blob = TPMBlob d\<rparr>] t"
  from assms(1,2) obtain lh where fl: "finishLoad env c d lh ?t1 = (Inr rc, t')"
    by (auto simp: ContextLoad_Some split: sum.splits)
  from finishLoad_session [OF fl ct assms(3)] show ?thesis
    by auto
qed

lemma sampleEnv_fields:
  "tpmContextSave sampleEnv =
     (\<lambda>t r. Inr \<lparr>Sequence = 1, SavedHandle = Handle_of (heap t r), Hierarchy = HandleNull,
                 Blob = [9, 9]\<rparr>)"
  "tpmContextLoad sampleEnv = (\<lambda>t c. Inr (SavedHandle c))"
  "tpmStartup sampleEnv = (\<lambda>t s. None)"
  "normalizeHandleForMap sampleEnv = wireNormalize"
  by (simp_all add: sampleEnv_def wireEnv_def)

lemma wireNormalize_sampleSession: "wireNormalize 0x02000000 = 0x02000000"
  by (simp add: wireNormalize_def Handle_Type_sampleSession HandleTypeHMACSession_def
      HandleTypePolicySession_def)

lemma ContextSave_sample:
  assumes "wrapContextBlob sampleEnv [9, 9] (SessionContext sampleSession) = Inr blob"
  shows "ContextSave sampleEnv 0 sampleTPM =
           (Inr \<lparr>Sequence = 1, SavedHandle = 0x02000000, Hierarchy = HandleNull, Blob = blob\<rparr>,
            sampleSavedTPM)"
  using assms
  by (simp add: ContextSave_def sampleEnv_fields sampleTPM_def sampleSavedTPM_def RunCommand_def
      sampleSession_def)

lemma unwrap_sample:
  assumes "wrapContextBlob sampleEnv [9, 9] (SessionContext sampleSession) = Inr blob"
  shows "unwrapContextBlob sampleEnv
           \<lparr>Sequence = 1, SavedHandle = 0x02000000, Hierarchy = HandleNull, Blob = blob\<rparr>
         = Inr \<lparr>ContextType = contextTypeSession, Data = SessionData sampleSessionData,
                TPMBlob = [9, 9]\<rparr>"
  using unwrap_wrapped [OF marshallerInverts_sampleEnv sha256Registered_sampleEnv assms,
      of "\<lparr>Sequence = 1, SavedHandle = 0x02000000, Hierarchy = HandleNull, Blob = blob\<rparr>"]
    valid_sampleSession [of "[9, 9]"]
  unfolding contextData_sampleSession by simp

lemma ContextLoad_sample:
  assumes "wrapContextBlob sampleEnv [9, 9] (SessionContext sampleSession) = Inr blob"
  shows "\<exists>t2. ContextLoad sampleEnv
           (Some \<lparr>Sequence = 1, SavedHandle = 0x02000000, Hierarchy = HandleNull, Blob = blob\<rparr>)
           (sampleSavedTPM\<lparr>exclusiveSession := x\<rparr>) = (Inr 0, t2)"
  by (simp add: ContextLoad_Some unwrap_sample [OF assms] sampleEnv_fields finishLoad_def
      contextType_distinct sessionFor_def wireNormalize_sampleSession sampleSavedTPM_def
      sampleTPM_def RunCommand_def Let_def)

lemma sampleSavedTPM_untracked: "sampleSavedTPM\<lparr>exclusiveSession := None\<rparr> = sampleSavedTPM"
  by (simp add: sampleSavedTPM_def sampleTPM_def)

lemma crossValidate_other_tpm:
  "crossValidate (env\<lparr>tpmContextLoad := f\<rparr>) h d = crossValidate env h d"
  by (simp add: crossValidate_def validateSession_def compareName_def
      split: resourceContextDataU.splits)

lemma unwrapContextBlob_other_tpm:
  "unwrapContextBlob (env\<lparr>tpmContextLoad := f\<rparr>) c = unwrapContextBlob env c"
  by (simp add: unwrapContextBlob_def crossValidate_other_tpm split: option.splits prod.splits)

text \<open>
  C5.  (1) After a successful \<open>ContextSave\<close> of a session, the session's \<open>usable\<close> flag
  is false.  (2) \<open>ContextSave\<close> of a session whose \<open>usable\<close> flag is false returns the
  invalid-parameter error and leaves the TPM context as it was: no command is run.
  (3) After a successful \<open>ContextLoad\<close> of a session blob, the session context returned
  has \<open>usable\<close> true, and it is the very context the registry still holds for the saved
  handle, if it holds one.
\<close>

theorem session_usable_transitions:
  "(heap t r = SessionContext sc \<and> ContextSave env r t = (Inr c, t1)
      \<longrightarrow> (\<exists>sc'. heap t1 r = SessionContext sc' \<and> \<not> usable sc'))
   \<and> (heap t r = SessionContext sc \<and> \<not> usable sc
      \<longrightarrow> ContextSave env r t
            = (Inl (InvalidParam ''saveContext'' ''unusable session HandleContext''), t))
   \<and> (ContextLoad env (Some c') t = (Inr r', t2) \<and> unwrapContextBlob env c' = Inr d
        \<and> Data d = SessionData dd
      \<longrightarrow> (\<exists>sc'. heap t2 r' = SessionContext sc' \<and> usable sc')
          \<and> (\<forall>r0. map_of (resources t) (normalizeHandleForMap env (SavedHandle c')) = Some r0
                \<longrightarrow> r' = r0))"
proof (intro conjI impI)
  assume "heap t r = SessionContext sc \<and> ContextSave env r t = (Inr c, t1)"
  then show "\<exists>sc'. heap t1 r = SessionContext sc' \<and> \<not> usable sc'"
    by (auto simp: ContextSave_def Let_def split: if_splits sum.splits)
next
  assume "heap t r = SessionContext sc \<and> \<not> usable sc"
  then show "ContextSave env r t
            = (Inl (InvalidParam ''saveContext'' ''unusable session HandleContext''), t)"
    by (simp add: ContextSave_def)
next
  assume h: "ContextLoad env (Some c') t = (Inr r', t2) \<and> unwrapContextBlob env c' = Inr d
        \<and> Data d = SessionData dd"
  then have a: "ContextLoad env (Some c') t = (Inr r', t2)" "unwrapContextBlob env c' = Inr d"
    "Data d = SessionData dd" by simp_all
  from ContextLoad_session [OF a]
  show "\<exists>sc'. heap t2 r' = SessionContext sc' \<and> usable sc'"
    by (auto simp: restoreSession_def)
  from ContextLoad_session [OF a]
  show "\<forall>r0. map_of (resources t) (normalizeHandleForMap env (SavedHandle c')) = Some r0
                \<longrightarrow> r' = r0"
    by auto
qed

theorem session_usable_transitions_witness:
  "case ContextSave sampleEnv 0 sampleTPM of
     (Inl e, t1) \<Rightarrow> False
   | (Inr c, t1) \<Rightarrow>
       (\<exists>sc'. heap t1 0 = SessionContext sc' \<and> \<not> usable sc')
       \<and> ContextSave sampleEnv 0 t1
           = (Inl (InvalidParam ''saveContext'' ''unusable session HandleContext''), t1)
       \<and> (case ContextLoad sampleEnv (Some c) t1 of
            (Inl e, t2) \<Rightarrow> False
          | (Inr r', t2) \<Rightarrow> r' = 0 \<and> (\<exists>sc'. heap t2 r' = SessionContext sc' \<and> usable sc'))"
proof -
  obtain blob where
    w: "wrapContextBlob sampleEnv [9, 9] (SessionContext sampleSession) = Inr blob"
    using wrap_sampleSession by blast
  let ?c = "\<lparr>Sequence = 1, SavedHandle = 0x02000000, Hierarchy = HandleNull, Blob = blob\<rparr>"
  let ?d = "\<lparr>ContextType = contextTypeSession, Data = SessionData sampleSessionData,
             TPMBlob = [9, 9]\<rparr>"
  note save = ContextSave_sample [OF w]
  obtain t2 where load: "ContextLoad sampleEnv (Some ?c) sampleSavedTPM = (Inr 0, t2)"
    using ContextLoad_sample [OF w, of None] by (auto simp: sampleSavedTPM_untracked)
  have h0: "heap sampleTPM 0 = SessionContext sampleSession"
    by (simp add: sampleTPM_def)
  note inst = session_usable_transitions
    [of sampleTPM 0 sampleSession sampleEnv ?c sampleSavedTPM ?c 0 t2 ?d sampleSessionData]
  from inst h0 save obtain sc1 where
    sc1: "heap sampleSavedTPM 0 = SessionContext sc1" "\<not> usable sc1"
    by blast
  from session_usable_transitions
    [of sampleSavedTPM 0 sc1 sampleEnv ?c sampleSavedTPM ?c 0 t2 ?d sampleSessionData] sc1
  have again: "ContextSave sampleEnv 0 sampleSavedTPM
           = (Inl (InvalidParam ''saveContext'' ''unusable session HandleContext''), sampleSavedTPM)"
    by blast
  from session_usable_transitions
    [of sampleSavedTPM 0 sc1 sampleEnv ?c sampleSavedTPM ?c 0 t2 ?d sampleSessionData]
    load unwrap_sample [OF w]
  have "\<exists>sc'. heap t2 0 = SessionContext sc' \<and> usable sc'"
    by simp
  with sc1 again show ?thesis
    by (simp add: save load)
qed

text \<open>
  C6.  After a successful \<open>ContextLoad\<close> of a session blob with metadata \<open>dd\<close>, the
  returned session context is exclusive exactly when \<open>dd\<close> says so and that context is
  the one \<open>exclusiveSession\<close> tracks; \<open>exclusiveSession\<close> itself is unchanged, and so is
  every other handle context in the store.
\<close>

theorem ContextLoad_exclusive_only_if_tracked:
  assumes "ContextLoad env (Some c) t = (Inr rc, t')"
    and "unwrapContextBlob env c = Inr d" and "Data d = SessionData dd"
  shows "(\<exists>sc. heap t' rc = SessionContext sc
            \<and> isExclusive sc = (IsExclusive dd \<and> exclusiveSession t' = Some rc))
       \<and> exclusiveSession t' = exclusiveSession t
       \<and> (\<forall>r. r \<noteq> rc \<longrightarrow> heap t' r = heap t r)"
  using ContextLoad_session [OF assms]
  by (auto simp: restoreSession_def)

theorem ContextLoad_exclusive_only_if_tracked_witness:
  "case wrapContextBlob sampleEnv [9, 9] (SessionContext sampleSession) of
     Inl e \<Rightarrow> False
   | Inr blob \<Rightarrow>
       IsExclusive sampleSessionData
       \<and> (case ContextLoad sampleEnv
               (Some \<lparr>Sequence = 1, SavedHandle = 0x02000000, Hierarchy = HandleNull,
                      Blob = blob\<rparr>) sampleSavedTPM of
          (Inl e, t2) \<Rightarrow> False
        | (Inr rc, t2) \<Rightarrow>
            exclusiveSession t2 = None
            \<and> (\<exists>sc. heap t2 rc = SessionContext sc \<and> \<not> isExclusive sc))
       \<and> (case ContextLoad sampleEnv
               (Some \<lparr>Sequence = 1, SavedHandle = 0x02000000, Hierarchy = HandleNull,
                      Blob = blob\<rparr>) (sampleSavedTPM\<lparr>exclusiveSession := Some 0\<rparr>) of
          (Inl e, t2) \<Rightarrow> False
        | (Inr rc, t2) \<Rightarrow>
            exclusiveSession t2 = Some rc
            \<and> (\<exists>sc. heap t2 rc = SessionContext sc \<and> isExclusive sc))"
proof -
  obtain blob where
    w: "wrapContextBlob sampleEnv [9, 9] (SessionContext sampleSession) = Inr blob"
    using wrap_sampleSession by blast
  let ?c = "\<lparr>Sequence = 1, SavedHandle = 0x02000000, Hierarchy = HandleNull, Blob = blob\<rparr>"
  obtain t2 where load: "ContextLoad sampleEnv (Some ?c) sampleSavedTPM = (Inr 0, t2)"
    using ContextLoad_sample [OF w, of None] by (auto simp: sampleSavedTPM_untracked)
  obtain t3 where
    load': "ContextLoad sampleEnv (Some ?c) (sampleSavedTPM\<lparr>exclusiveSession := Some 0\<rparr>)
              = (Inr 0, t3)"
    using ContextLoad_sample [OF w, of "Some 0"] by blast
  have d: "Data \<lparr>ContextType = contextTypeSession, Data = SessionData sampleSessionData,
                 TPMBlob = [9, 9]\<rparr> = SessionData sampleSessionData"
    by simp
  have ex: "exclusiveSession sampleSavedTPM = None"
    by (simp add: sampleSavedTPM_def sampleTPM_def)
  have dd: "IsExclusive sampleSessionData"
    by (simp add: sampleSessionData_def)
  from ContextLoad_exclusive_only_if_tracked [OF load unwrap_sample [OF w] d] ex
  have untracked:
    "exclusiveSession t2 = None \<and> (\<exists>sc. heap t2 0 = SessionContext sc \<and> \<not> isExclusive sc)"
    by auto
  from ContextLoad_exclusive_only_if_tracked [OF load' unwrap_sample [OF w] d] dd
  have tracked:
    "exclusiveSession t3 = Some 0 \<and> (\<exists>sc. heap t3 0 = SessionContext sc \<and> isExclusive sc)"
    by auto
  from untracked tracked dd show ?thesis
    by (simp add: w load load')
qed

text \<open>
  C9.  Let the blob unwrap to the payload \<open>d\<close> and let the TPM answer the load with the
  handle \<open>loadedHandle\<close>.  For a session payload, if \<open>loadedHandle\<close> differs from the
  saved handle, and for an object payload, if the type of \<open>loadedHandle\<close> is not
  transient, \<open>ContextLoad\<close> returns an \<open>InvalidResponseError\<close> for \<open>CommandContextLoad\<close>,
  and the registry and the store are as they were.
\<close>

theorem ContextLoad_rejects_wrong_loaded_handle:
  assumes "unwrapContextBlob env c = Inr d"
    and "tpmContextLoad env t \<lparr>Sequence = Sequence c, SavedHandle = SavedHandle c,
                               Hierarchy = Hierarchy c, Blob = TPMBlob d\<rparr> = Inr loadedHandle"
  shows "(ContextType d = contextTypeSession \<and> loadedHandle \<noteq> SavedHandle c \<longrightarrow>
            fst (ContextLoad env (Some c) t)
              = Inl (InvalidResponseError CommandContextLoad
                       ''handle 0x%08x returned from TPM is incorrect'' loadedHandle)
            \<and> resources (snd (ContextLoad env (Some c) t)) = resources t
            \<and> heap (snd (ContextLoad env (Some c) t)) = heap t)
       \<and> (ContextType d = contextTypeObject \<and> Handle_Type loadedHandle \<noteq> HandleTypeTransient \<longrightarrow>
            fst (ContextLoad env (Some c) t)
              = Inl (InvalidResponseError CommandContextLoad
                       ''handle 0x%08x returned from TPM is the wrong type'' loadedHandle)
            \<and> resources (snd (ContextLoad env (Some c) t)) = resources t
            \<and> heap (snd (ContextLoad env (Some c) t)) = heap t)"
  using assms
  by (auto simp: ContextLoad_Some finishLoad_def contextTypeSession_def contextTypeObject_def)

theorem ContextLoad_rejects_wrong_loaded_handle_witness:
  "case wrapContextBlob sampleEnv [9, 9] (SessionContext sampleSession) of
     Inl e \<Rightarrow> False
   | Inr blob \<Rightarrow>
       fst (ContextLoad sampleWrongHandleEnv
              (Some \<lparr>Sequence = 1, SavedHandle = 0x02000000, Hierarchy = HandleNull,
                     Blob = blob\<rparr>) sampleSavedTPM)
         = Inl (InvalidResponseError CommandContextLoad
                  ''handle 0x%08x returned from TPM is incorrect'' 0x02000001)
       \<and> resources (snd (ContextLoad sampleWrongHandleEnv
              (Some \<lparr>Sequence = 1, SavedHandle = 0x02000000, Hierarchy = HandleNull,
                     Blob = blob\<rparr>) sampleSavedTPM))
         = resources sampleSavedTPM"
proof -
  obtain blob where
    w: "wrapContextBlob sampleEnv [9, 9] (SessionContext sampleSession) = Inr blob"
    using wrap_sampleSession by blast
  let ?c = "\<lparr>Sequence = 1, SavedHandle = 0x02000000, Hierarchy = HandleNull, Blob = blob\<rparr>"
  let ?d = "\<lparr>ContextType = contextTypeSession, Data = SessionData sampleSessionData,
             TPMBlob = [9, 9]\<rparr>"
  have u: "unwrapContextBlob sampleWrongHandleEnv ?c = Inr ?d"
    unfolding sampleWrongHandleEnv_def unwrapContextBlob_other_tpm by (rule unwrap_sample [OF w])
  have l: "tpmContextLoad sampleWrongHandleEnv sampleSavedTPM
             \<lparr>Sequence = Sequence ?c, SavedHandle = SavedHandle ?c,
              Hierarchy = Hierarchy ?c, Blob = TPMBlob ?d\<rparr> = Inr 0x02000001"
    by (simp add: sampleWrongHandleEnv_def)
  from ContextLoad_rejects_wrong_loaded_handle [OF u l, THEN conjunct1]
  show ?thesis
    by (simp add: w)
qed

section \<open>Startup\<close>










section \<open>The expiration sign convention\<close>

lemma length_be64: "length (be64 w) = 8"
  by (simp add: be64_def)

lemma HandleOwner_not_Null: "HandleOwner \<noteq> HandleNull"
  by (simp add: HandleOwner_def HandleNull_def)

lemma policyAssertion_sign:
  "policyAssertion tag clock tdigest expiration = (timeout, ticket) \<Longrightarrow>
     Tag ticket = tag
     \<and> (if 0 \<le> sint expiration
         then timeout = [] \<and> TkHierarchy ticket = HandleNull
         else timeout \<noteq> [] \<and> TkHierarchy ticket = HandleOwner \<and> TkHierarchy ticket \<noteq> HandleNull)"
  using length_be64 [of "clock + of_int \<bar>sint expiration\<bar>"]
  by (auto simp: policyAssertion_def HandleOwner_not_Null split: if_splits)

text \<open>
  C8.  For every successful \<open>PolicySecret\<close> or \<open>PolicySigned\<close>: with a non-negative
  expiration the timeout is empty and the ticket's hierarchy is the null handle; with a
  negative expiration the timeout is non-empty and the hierarchy is the owner handle,
  which is not the null handle.  In both cases the checks of the tests report nothing.
\<close>

theorem policy_expiration_sign_convention:
  "(PolicySecret failure clock tdigest expiration = Inr (timeout, ticket) \<longrightarrow>
      (if 0 \<le> sint expiration
       then timeout = [] \<and> TkHierarchy ticket = HandleNull
       else timeout \<noteq> [] \<and> TkHierarchy ticket = HandleOwner \<and> TkHierarchy ticket \<noteq> HandleNull)
      \<and> ticketTestFailures TagAuthSecret expiration timeout ticket = [])
   \<and> (PolicySigned failure clock tdigest expiration = Inr (timeout, ticket) \<longrightarrow>
      (if 0 \<le> sint expiration
       then timeout = [] \<and> TkHierarchy ticket = HandleNull
       else timeout \<noteq> [] \<and> TkHierarchy ticket = HandleOwner \<and> TkHierarchy ticket \<noteq> HandleNull)
      \<and> ticketTestFailures TagAuthSigned expiration timeout ticket = [])"
proof (intro conjI impI)
  assume "PolicySecret failure clock tdigest expiration = Inr (timeout, ticket)"
  then have "policyAssertion TagAuthSecret clock tdigest expiration = (timeout, ticket)"
    by (simp add: PolicySecret_def split: option.splits)
  from policyAssertion_sign [OF this]
  show "if 0 \<le> sint expiration
       then timeout = [] \<and> TkHierarchy ticket = HandleNull
       else timeout \<noteq> [] \<and> TkHierarchy ticket = HandleOwner \<and> TkHierarchy ticket \<noteq> HandleNull"
    and "ticketTestFailures TagAuthSecret expiration timeout ticket = []"
    by (simp_all add: ticketTestFailures_def HandleOwner_not_Null split: if_splits)
next
  assume "PolicySigned failure clock tdigest expiration = Inr (timeout, ticket)"
  then have "policyAssertion TagAuthSigned clock tdigest expiration = (timeout, ticket)"
    by (simp add: PolicySigned_def split: option.splits)
  from policyAssertion_sign [OF this]
  show "if 0 \<le> sint expiration
       then timeout = [] \<and> TkHierarchy ticket = HandleNull
       else timeout \<noteq> [] \<and> TkHierarchy ticket = HandleOwner \<and> TkHierarchy ticket \<noteq> HandleNull"
    and "ticketTestFailures TagAuthSigned expiration timeout ticket = []"
    by (simp_all add: ticketTestFailures_def HandleOwner_not_Null split: if_splits)
qed

lemma sint_samples: "sint (- 60 :: 32 word) = - 60" "sint (100 :: 32 word) = 100"
  by simp_all

theorem policy_expiration_sign_convention_witness:
  "(case PolicySecret None 1000 [1, 2] (- 60) of
      Inl e \<Rightarrow> False
    | Inr (timeout, ticket) \<Rightarrow> timeout \<noteq> [] \<and> TkHierarchy ticket = HandleOwner
        \<and> ticketTestFailures TagAuthSecret (- 60) timeout ticket = [])
   \<and> (case PolicySigned None 1000 [1, 2] 100 of
      Inl e \<Rightarrow> False
    | Inr (timeout, ticket) \<Rightarrow> timeout = [] \<and> TkHierarchy ticket = HandleNull
        \<and> ticketTestFailures TagAuthSigned 100 timeout ticket = [])"
proof -
  obtain to1 tk1 where a: "PolicySecret None 1000 [1, 2] (- 60) = Inr (to1, tk1)"
    by (cases "policyAssertion TagAuthSecret 1000 [1, 2] (- 60)") (simp add: PolicySecret_def)
  obtain to2 tk2 where b: "PolicySigned None 1000 [1, 2] 100 = Inr (to2, tk2)"
    by (cases "policyAssertion TagAuthSigned 1000 [1, 2] 100") (simp add: PolicySigned_def)
  from policy_expiration_sign_convention [of None 1000 "[1, 2]" "- 60" to1 tk1, THEN conjunct1] a
    policy_expiration_sign_convention [of None 1000 "[1, 2]" 100 to2 tk2, THEN conjunct2] b
  show ?thesis
    by (auto simp: sint_samples)
qed

section \<open>Create: nil arguments\<close>

text \<open>
  C10.  \<open>Create\<close> with a nil \<open>parentHandle\<close> returns the invalid-parameter error ``nil
  parentHandle'', with a nil \<open>inPublic\<close> (and a parent) the error ``nil inPublic'', in
  both cases leaving the \<open>tpmImpl\<close> as it was, no command issued; with a nil
  \<open>inSensitive\<close> it does exactly what it does with the empty \<open>SensitiveCreate\<close> value.
\<close>

theorem Create_nil_arguments:
  "Create env None inSens inPub outsideInf pcrs sess t
     = (Inl (InvalidParamError ''nil parentHandle''), t)
   \<and> Create env (Some ph) inSens None outsideInf pcrs sess t
     = (Inl (InvalidParamError ''nil inPublic''), t)
   \<and> Create env parentHandle None inPub outsideInf pcrs sess t
     = Create env parentHandle (Some (zeroSensitiveCreate env)) inPub outsideInf pcrs sess t"
  by (simp add: Create_def split: option.splits)

theorem Create_nil_arguments_witness:
  "Create sampleCreateEnv None (Some [5]) (Some [1, 2, 4]) [] () () sampleImpl
     = (Inl (InvalidParamError ''nil parentHandle''), sampleImpl)
   \<and> Create sampleCreateEnv (Some (OtherContext 0x40000001)) (Some [5]) None [] () () sampleImpl
     = (Inl (InvalidParamError ''nil inPublic''), sampleImpl)
   \<and> Create sampleCreateEnv (Some (OtherContext 0x40000001)) None (Some [1, 2, 4]) [] () () sampleImpl
     = Create sampleCreateEnv (Some (OtherContext 0x40000001)) (Some []) (Some [1, 2, 4]) [] () ()
         sampleImpl
   \<and> implIssued (snd (Create sampleCreateEnv (Some (OtherContext 0x40000001)) None
                         (Some [1, 2, 4]) [] () () sampleImpl))
     = [\<lparr>parent = 0x40000001, inSensitive = [], inPublic = [1, 2, 4], outsideInfo = [],
          creationPCR = (), session = ()\<rparr>]"
proof -
  have z: "zeroSensitiveCreate sampleCreateEnv = []"
    by (simp add: sampleCreateEnv_def)
  have run: "implIssued (snd (Create sampleCreateEnv (Some (OtherContext 0x40000001)) (Some [])
                         (Some [1, 2, 4]) [] () () sampleImpl))
     = [\<lparr>parent = 0x40000001, inSensitive = [], inPublic = [1, 2, 4], outsideInfo = [],
          creationPCR = (), session = ()\<rparr>]"
    by (simp add: Create_def sampleCreateEnv_def sampleImpl_def)
  from Create_nil_arguments [of sampleCreateEnv "Some [5]" "Some [1, 2, 4]" "[]" "()" "()" sampleImpl
      "OtherContext 0x40000001" "Some (OtherContext 0x40000001)"]
  show ?thesis
    using run by (simp add: z)
qed

end
